theory Spec2Isabelle
  imports Complex_Main "HOL-Library.Multiset" "HOL-Library.Product_Lexorder"
begin

section \<open>JavaScript numbers\<close>

text \<open>
  A JavaScript \<^verbatim>\<open>number\<close> is modelled as a rational, one of the two infinities, or NaN.
  Arithmetic on finite operands is exact: rounding, overflow to an infinity and the sign
  of zero are not part of the model. The operations below follow the language's rules
  for the special values.
\<close>

datatype number = Fin rat | PInf | NInf | NaN

fun isNaN :: "number \<Rightarrow> bool" where
  "isNaN NaN = True"
| "isNaN _ = False"

fun isFinite :: "number \<Rightarrow> bool" where
  "isFinite (Fin _) = True"
| "isFinite _ = False"

fun nneg :: "number \<Rightarrow> number" where
  "nneg (Fin a) = Fin (- a)"
| "nneg PInf = NInf"
| "nneg NInf = PInf"
| "nneg NaN = NaN"

fun nadd :: "number \<Rightarrow> number \<Rightarrow> number" where
  "nadd NaN _ = NaN"
| "nadd _ NaN = NaN"
| "nadd (Fin a) (Fin b) = Fin (a + b)"
| "nadd PInf NInf = NaN"
| "nadd NInf PInf = NaN"
| "nadd PInf _ = PInf"
| "nadd NInf _ = NInf"
| "nadd (Fin a) b = b"

definition nsub :: "number \<Rightarrow> number \<Rightarrow> number" where
  "nsub a b = nadd a (nneg b)"

fun nmul :: "number \<Rightarrow> number \<Rightarrow> number" where
  "nmul NaN _ = NaN"
| "nmul _ NaN = NaN"
| "nmul (Fin a) (Fin b) = Fin (a * b)"
| "nmul (Fin a) PInf = (if a = 0 then NaN else if 0 < a then PInf else NInf)"
| "nmul (Fin a) NInf = (if a = 0 then NaN else if 0 < a then NInf else PInf)"
| "nmul PInf (Fin b) = (if b = 0 then NaN else if 0 < b then PInf else NInf)"
| "nmul NInf (Fin b) = (if b = 0 then NaN else if 0 < b then NInf else PInf)"
| "nmul PInf PInf = PInf"
| "nmul PInf NInf = NInf"
| "nmul NInf PInf = NInf"
| "nmul NInf NInf = PInf"

fun ndiv :: "number \<Rightarrow> number \<Rightarrow> number" where
  "ndiv NaN _ = NaN"
| "ndiv _ NaN = NaN"
| "ndiv (Fin a) (Fin b) =
     (if b = 0 then (if a = 0 then NaN else if 0 < a then PInf else NInf)
      else Fin (a / b))"
| "ndiv (Fin a) _ = Fin 0"
| "ndiv PInf (Fin b) = (if 0 \<le> b then PInf else NInf)"
| "ndiv NInf (Fin b) = (if 0 \<le> b then NInf else PInf)"
| "ndiv _ _ = NaN"

fun nlt :: "number \<Rightarrow> number \<Rightarrow> bool" where
  "nlt NaN _ = False"
| "nlt _ NaN = False"
| "nlt (Fin a) (Fin b) = (a < b)"
| "nlt (Fin a) PInf = True"
| "nlt NInf (Fin b) = True"
| "nlt NInf PInf = True"
| "nlt _ _ = False"

definition ngt :: "number \<Rightarrow> number \<Rightarrow> bool" where
  "ngt a b = nlt b a"

definition nle :: "number \<Rightarrow> number \<Rightarrow> bool" where
  "nle a b = (nlt a b \<or> (a = b \<and> \<not> isNaN a))"

definition nge :: "number \<Rightarrow> number \<Rightarrow> bool" where
  "nge a b = nle b a"

text \<open>Truthiness of a number, as \<^verbatim>\<open>||\<close> tests it: zero and NaN are falsy.\<close>

definition truthy :: "number \<Rightarrow> bool" where
  "truthy a = (a \<noteq> Fin 0 \<and> \<not> isNaN a)"

text \<open>
  \<^verbatim>\<open>Math.min(...values)\<close> and \<^verbatim>\<open>Math.max(...values)\<close>: NaN as soon as one argument is
  NaN, and the identity (plus or minus infinity) for no argument at all.
\<close>

definition min2 :: "number \<Rightarrow> number \<Rightarrow> number" where
  "min2 a b = (if isNaN a \<or> isNaN b then NaN else if nlt b a then b else a)"

definition max2 :: "number \<Rightarrow> number \<Rightarrow> number" where
  "max2 a b = (if isNaN a \<or> isNaN b then NaN else if nlt a b then b else a)"

definition Math_min :: "number list \<Rightarrow> number" where
  "Math_min vs = foldl min2 PInf vs"

definition Math_max :: "number list \<Rightarrow> number" where
  "Math_max vs = foldl max2 NInf vs"

section \<open>Data model\<close>

text \<open>
  The two row types of app/page.tsx. A nullable field is an option. Three fields are
  renamed, since their names are taken in Isabelle: the \<^verbatim>\<open>id\<close> of a goal is \<open>gid\<close>, the
  \<^verbatim>\<open>id\<close> of an entry is \<open>entry_id\<close> and its \<^verbatim>\<open>value\<close> is \<open>entry_value\<close>; the
  \<^verbatim>\<open>created_at\<close> of a goal is \<open>goal_created_at\<close>, to keep it apart from the entry's.
  Dates and timestamps are the strings the store returns.
\<close>

datatype GoalType = north_star | mid_term | habit

datatype TrackerType = checkin | numeric

record Goal =
  gid :: string
  user_id :: "string option"
  title :: string
  description :: "string option"
  goal_type :: GoalType
  tracker_type :: "TrackerType option"
  unit :: "string option"
  target_value :: "number option"
  target_date :: "string option"
  is_pinned :: bool
  is_hidden :: bool
  sort_order :: int
  goal_created_at :: string
  updated_at :: string

record GoalEntry =
  entry_id :: string
  goal_id :: string
  entry_date :: string
  is_done :: "bool option"
  entry_value :: "number option"
  reflection :: "string option"
  created_at :: string

section \<open>Numeric chart of the dashboard (app/page.tsx, renderNumericChart)\<close>

text \<open>
  Each local constant of the function is a definition of its own, under the name it has
  in the source, taking what it is computed from: \<open>nes\<close> is \<^verbatim>\<open>numericEntries\<close>, \<open>vs\<close> is
  \<^verbatim>\<open>values\<close>. The non-null assertion \<^verbatim>\<open>e.value as number\<close> is \<open>the\<close>, applied only to
  entries the filter has kept. \<open>orOne\<close> is the \<^verbatim>\<open>|| 1\<close> of the range.
\<close>

definition width :: number where "width = Fin 320"
definition height :: number where "height = Fin 120"
definition paddingX :: number where "paddingX = Fin 16"
definition paddingY :: number where "paddingY = Fin 12"

definition numericEntries :: "GoalEntry list \<Rightarrow> GoalEntry list" where
  "numericEntries entries = filter (\<lambda>e. entry_value e \<noteq> None) entries"

definition entryValues :: "GoalEntry list \<Rightarrow> number list" where
  "entryValues nes = map (\<lambda>e. the (entry_value e)) nes"

definition hasTarget :: "number option \<Rightarrow> bool" where
  "hasTarget targetValue = (case targetValue of None \<Rightarrow> False | Some t \<Rightarrow> \<not> isNaN t)"

definition scaleMin :: "number list \<Rightarrow> number option \<Rightarrow> number" where
  "scaleMin vs targetValue =
     (if hasTarget targetValue then min2 (Math_min vs) (the targetValue) else Math_min vs)"

definition scaleMax :: "number list \<Rightarrow> number option \<Rightarrow> number" where
  "scaleMax vs targetValue =
     (if hasTarget targetValue then max2 (Math_max vs) (the targetValue) else Math_max vs)"

definition orOne :: "number \<Rightarrow> number" where
  "orOne r = (if truthy r then r else Fin 1)"

definition chart_range :: "number list \<Rightarrow> number option \<Rightarrow> number" where
  "chart_range vs targetValue = orOne (nsub (scaleMax vs targetValue) (scaleMin vs targetValue))"

definition stepX :: "nat \<Rightarrow> number" where
  "stepX n =
     (if 1 < n then ndiv (nsub width (nmul paddingX (Fin 2))) (Fin (of_nat n - 1))
      else Fin 0)"

type_synonym point = "number \<times> number"

definition points :: "GoalEntry list \<Rightarrow> number option \<Rightarrow> point list" where
  "points nes targetValue =
     map (\<lambda>(idx, entry).
            (nadd paddingX (nmul (Fin (of_nat idx)) (stepX (length nes))),
             nsub (nsub height paddingY)
               (nmul (ndiv (nsub (the (entry_value entry)) (scaleMin (entryValues nes) targetValue))
                           (chart_range (entryValues nes) targetValue))
                     (nsub height (nmul paddingY (Fin 2))))))
         (enumerate 0 nes)"

definition targetY :: "number list \<Rightarrow> number option \<Rightarrow> number option" where
  "targetY vs targetValue =
     (if hasTarget targetValue \<and> ngt (chart_range vs targetValue) (Fin 0)
      then Some (nsub (nsub height paddingY)
                   (nmul (ndiv (nsub (the targetValue) (scaleMin vs targetValue))
                               (chart_range vs targetValue))
                         (nsub height (nmul paddingY (Fin 2)))))
      else None)"

text \<open>The suffix \<^verbatim>\<open>unit ? ` ${unit}` : ""\<close>: an absent and an empty unit print nothing.\<close>

definition unitSuffix :: "string option \<Rightarrow> string" where
  "unitSuffix u = (case u of None \<Rightarrow> [] | Some s \<Rightarrow> if s = [] then [] else CHR '' '' # s)"

text \<open>
  What the chart draws: the two range labels, the target label, the dashed target line
  (its height), the polyline and the circles. Numbers are kept as numbers; their
  printing is not modelled.
\<close>

record NumericChart =
  minLabel :: "number \<times> string"
  maxLabel :: "number \<times> string"
  targetLabel :: "(number \<times> string) option"
  targetLine :: "number option"
  polylinePoints :: "point list"
  circles :: "point list"

definition targetLineShown :: "number list \<Rightarrow> number option \<Rightarrow> bool" where
  "targetLineShown vs targetValue =
     (hasTarget targetValue \<and> targetY vs targetValue \<noteq> None
      \<and> nge (the (targetY vs targetValue)) paddingY
      \<and> nle (the (targetY vs targetValue)) (nsub height paddingY))"

definition renderNumericChart ::
  "GoalEntry list \<Rightarrow> string option \<Rightarrow> number option \<Rightarrow> NumericChart option" where
  "renderNumericChart entries u targetValue =
     (let nes = numericEntries entries in
      if nes = [] then None
      else
        let vs = entryValues nes;
            minVal = Math_min vs;
            maxVal = Math_max vs
        in Some \<lparr> minLabel = (minVal, unitSuffix u),
                  maxLabel = (maxVal, unitSuffix u),
                  targetLabel = (if hasTarget targetValue
                                 then Some (the targetValue, unitSuffix u) else None),
                  targetLine = (if targetLineShown vs targetValue
                                then targetY vs targetValue else None),
                  polylinePoints = points nes targetValue,
                  circles = points nes targetValue \<rparr>)"

section \<open>Numeric chart of the goal page (app/goals/[id]/page.tsx, renderNumericChart)\<close>

text \<open>
  The goal page has its own copy of the chart, with its own constants and no target: the
  scale is the minimum and the maximum of the values. It reads the entries with a value
  from the page's state.
\<close>

definition detail_width :: number where "detail_width = Fin 320"
definition detail_height :: number where "detail_height = Fin 120"
definition detail_paddingX :: number where "detail_paddingX = Fin 16"
definition detail_paddingY :: number where "detail_paddingY = Fin 12"

definition detail_range :: "number list \<Rightarrow> number" where
  "detail_range vs = orOne (nsub (Math_max vs) (Math_min vs))"

definition detail_stepX :: "nat \<Rightarrow> number" where
  "detail_stepX n =
     (if 1 < n
      then ndiv (nsub detail_width (nmul detail_paddingX (Fin 2))) (Fin (of_nat n - 1))
      else Fin 0)"

definition detail_points :: "GoalEntry list \<Rightarrow> point list" where
  "detail_points nes =
     map (\<lambda>(idx, entry).
            (nadd detail_paddingX (nmul (Fin (of_nat idx)) (detail_stepX (length nes))),
             nsub (nsub detail_height detail_paddingY)
               (nmul (ndiv (nsub (the (entry_value entry)) (Math_min (entryValues nes)))
                           (detail_range (entryValues nes)))
                     (nsub detail_height (nmul detail_paddingY (Fin 2))))))
         (enumerate 0 nes)"

record DetailChart =
  detail_minLabel :: "number \<times> string"
  detail_maxLabel :: "number \<times> string"
  detail_polylinePoints :: "point list"
  detail_circles :: "point list"

definition detail_renderNumericChart :: "GoalEntry list \<Rightarrow> string option \<Rightarrow> DetailChart option" where
  "detail_renderNumericChart entries u =
     (let nes = numericEntries entries in
      if nes = [] then None
      else
        let vs = entryValues nes;
            minVal = Math_min vs;
            maxVal = Math_max vs
        in Some \<lparr> detail_minLabel = (minVal, unitSuffix u),
                  detail_maxLabel = (maxVal, unitSuffix u),
                  detail_polylinePoints = detail_points nes,
                  detail_circles = detail_points nes \<rparr>)"

section \<open>Ordering of entries (app/page.tsx, getDashboardData; app/goals/[id]/page.tsx, History)\<close>

text \<open>
  The comparator passed to \<^verbatim>\<open>sort\<close>, written once on each page. The platform's
  \<^verbatim>\<open>new Date(s).getTime()\<close> is the parameter \<open>getTime\<close>; it is NaN for a string that
  is no date.
\<close>

definition compareEntries :: "(string \<Rightarrow> number) \<Rightarrow> GoalEntry \<Rightarrow> GoalEntry \<Rightarrow> number" where
  "compareEntries getTime a b =
     (if entry_date a = entry_date b
      then nsub (getTime (created_at b)) (getTime (created_at a))
      else nsub (getTime (entry_date b)) (getTime (entry_date a)))"

definition detail_compareEntries :: "(string \<Rightarrow> number) \<Rightarrow> GoalEntry \<Rightarrow> GoalEntry \<Rightarrow> number" where
  "detail_compareEntries getTime a b =
     (if entry_date a = entry_date b
      then nsub (getTime (created_at b)) (getTime (created_at a))
      else nsub (getTime (entry_date b)) (getTime (entry_date a)))"

text \<open>
  \<^verbatim>\<open>Array.prototype.sort\<close> is stable and calls the comparator; a positive result puts the
  second argument first, and a NaN result counts as zero. For a comparator that is a
  consistent ordering every stable sort returns the same list, the one that insertion
  from the right computes here.
\<close>

fun insertSorted :: "('a \<Rightarrow> 'a \<Rightarrow> number) \<Rightarrow> 'a \<Rightarrow> 'a list \<Rightarrow> 'a list" where
  "insertSorted cmp x [] = [x]"
| "insertSorted cmp x (y # ys) =
     (if ngt (cmp x y) (Fin 0) then y # insertSorted cmp x ys else x # y # ys)"

definition sort_js :: "('a \<Rightarrow> 'a \<Rightarrow> number) \<Rightarrow> 'a list \<Rightarrow> 'a list" where
  "sort_js cmp xs = foldr (insertSorted cmp) xs []"

text \<open>The two maps that \<^verbatim>\<open>getDashboardData\<close> fills with \<^verbatim>\<open>forEach\<close>.\<close>

definition pushEntry :: "GoalEntry \<Rightarrow> (string \<rightharpoonup> GoalEntry list) \<Rightarrow> (string \<rightharpoonup> GoalEntry list)" where
  "pushEntry entry m =
     m(goal_id entry \<mapsto> (case m (goal_id entry) of None \<Rightarrow> [] | Some arr \<Rightarrow> arr) @ [entry])"

definition groupEntriesByGoal :: "GoalEntry list \<Rightarrow> (string \<rightharpoonup> GoalEntry list)" where
  "groupEntriesByGoal entries = fold pushEntry entries Map.empty"

definition setIfAbsent :: "GoalEntry \<Rightarrow> (string \<rightharpoonup> GoalEntry) \<Rightarrow> (string \<rightharpoonup> GoalEntry)" where
  "setIfAbsent entry m = (if m (goal_id entry) = None then m(goal_id entry \<mapsto> entry) else m)"

definition latestByGoal :: "(string \<Rightarrow> number) \<Rightarrow> GoalEntry list \<Rightarrow> (string \<rightharpoonup> GoalEntry)" where
  "latestByGoal getTime entries =
     fold setIfAbsent (sort_js (compareEntries getTime) entries) Map.empty"

text \<open>
  A query of the store answers with \<^verbatim>\<open>{ data, error }\<close>. The goals query is answered
  before the function's first test; the entries query is issued with the goal ids, so it
  is a function of them.
\<close>

record 'a QueryResult =
  data :: "'a list option"
  error :: "string option"

record DashboardData =
  goals :: "Goal list"
  latestEntriesByGoal :: "string \<rightharpoonup> GoalEntry"
  entriesByGoal :: "string \<rightharpoonup> GoalEntry list"

definition getDashboardData ::
  "(string \<Rightarrow> number) \<Rightarrow> Goal QueryResult \<Rightarrow> (string list \<Rightarrow> GoalEntry QueryResult) \<Rightarrow> DashboardData" where
  "getDashboardData getTime goalsResult fetchEntries =
     (if error goalsResult \<noteq> None
      then \<lparr> goals = [], latestEntriesByGoal = Map.empty, entriesByGoal = Map.empty \<rparr>
      else
        let typedGoals = (case data goalsResult of None \<Rightarrow> [] | Some gs \<Rightarrow> gs) in
        if typedGoals = []
        then \<lparr> goals = [], latestEntriesByGoal = Map.empty, entriesByGoal = Map.empty \<rparr>
        else
          let entriesResult = fetchEntries (map gid typedGoals) in
          if error entriesResult \<noteq> None
          then \<lparr> goals = typedGoals, latestEntriesByGoal = Map.empty, entriesByGoal = Map.empty \<rparr>
          else
            let entries = (case data entriesResult of None \<Rightarrow> [] | Some es \<Rightarrow> es) in
            \<lparr> goals = typedGoals,
              latestEntriesByGoal = latestByGoal getTime entries,
              entriesByGoal = groupEntriesByGoal entries \<rparr>)"

text \<open>The History section of the goal page: the empty state, or the sorted list.\<close>

datatype HistoryView = NoEntriesYet | HistoryItems "GoalEntry list"

definition detail_History :: "(string \<Rightarrow> number) \<Rightarrow> GoalEntry list \<Rightarrow> HistoryView" where
  "detail_History getTime entries =
     (if entries = [] then NoEntriesYet
      else HistoryItems (sort_js (detail_compareEntries getTime) entries))"

section \<open>Check-in calendar of the dashboard (app/page.tsx, renderCheckinCalendar)\<close>

text \<open>
  The platform's \<^verbatim>\<open>Date\<close> follows the Gregorian calendar: \<open>getDate_lastOfMonth\<close> is
  \<^verbatim>\<open>new Date(year, month + 1, 0).getDate()\<close>, the number of days of the month, and
  \<open>getDay_firstOfMonth\<close> is \<^verbatim>\<open>new Date(year, month, 1).getDay()\<close>, the weekday of its
  first day with Sunday as 0. Months count from 0 to 11, as \<^verbatim>\<open>getMonth()\<close> returns
  them, and years are those a clock reports (the constructor reads a year below 100 as
  19xx, which is left out).
\<close>

definition isLeapYear :: "nat \<Rightarrow> bool" where
  "isLeapYear y = ((y mod 4 = 0 \<and> y mod 100 \<noteq> 0) \<or> y mod 400 = 0)"

definition getDate_lastOfMonth :: "nat \<Rightarrow> nat \<Rightarrow> nat" where
  "getDate_lastOfMonth year month =
     (if month = 1 then (if isLeapYear year then 29 else 28)
      else if month \<in> {3, 5, 8, 10} then 30 else 31)"

definition getDay_firstOfMonth :: "nat \<Rightarrow> nat \<Rightarrow> nat" where
  "getDay_firstOfMonth year month =
     (let y = (if month < 2 then year - 1 else year);
          t = [0, 3, 2, 5, 0, 3, 5, 1, 4, 6, 2, 4] ! month
      in (y + y div 4 - y div 100 + y div 400 + t + 1) mod 7)"

text \<open>
  What the function reads from the clock: \<^verbatim>\<open>getFullYear()\<close> and \<^verbatim>\<open>getMonth()\<close> of
  \<^verbatim>\<open>new Date()\<close>, which are in local time, and \<^verbatim>\<open>new Date().toISOString().slice(0, 10)\<close>,
  which is the date in UTC.
\<close>

record Clock =
  now_year :: nat
  now_month :: nat
  now_iso :: string

text \<open>The two \<^verbatim>\<open>for\<close> loops that fill \<^verbatim>\<open>cells\<close>.\<close>

function pushNulls :: "nat \<Rightarrow> nat \<Rightarrow> nat option list \<Rightarrow> nat option list" where
  "pushNulls i startWeekday cells =
     (if i < startWeekday then pushNulls (Suc i) startWeekday (cells @ [None]) else cells)"
  by pat_completeness auto
termination
  by (relation "measure (\<lambda>(i, startWeekday, cells). startWeekday - i)") auto

declare pushNulls.simps [simp del]

function pushDays :: "nat \<Rightarrow> nat \<Rightarrow> nat option list \<Rightarrow> nat option list" where
  "pushDays d daysInMonth cells =
     (if d \<le> daysInMonth then pushDays (Suc d) daysInMonth (cells @ [Some d]) else cells)"
  by pat_completeness auto
termination
  by (relation "measure (\<lambda>(d, daysInMonth, cells). Suc daysInMonth - d)") auto

declare pushDays.simps [simp del]

text \<open>\<^verbatim>\<open>String(n)\<close> of a natural number, and \<^verbatim>\<open>padStart(2, "0")\<close>.\<close>

fun String_nat :: "nat \<Rightarrow> string" where
  "String_nat n =
     (if n < 10 then [''0123456789'' ! n]
      else String_nat (n div 10) @ [''0123456789'' ! (n mod 10)])"

declare String_nat.simps [simp del]

definition padStart2 :: "string \<Rightarrow> string" where
  "padStart2 s = replicate (2 - length s) CHR ''0'' @ s"

definition dateKey :: "nat \<Rightarrow> nat \<Rightarrow> nat \<Rightarrow> string" where
  "dateKey year month day =
     String_nat year @ ''-'' @ padStart2 (String_nat (month + 1)) @ ''-'' @ padStart2 (String_nat day)"

text \<open>
  A cell is an empty box or a day with one of three class strings, named here by what
  they show. The month label is left out.
\<close>

datatype CellStyle = CellDone | CellToday | CellPlain

datatype Cell = Blank | Day nat CellStyle

definition collectDoneDates :: "GoalEntry list \<Rightarrow> string set" where
  "collectDoneDates entries =
     fold (\<lambda>e doneDates. if is_done e = Some True then insert (entry_date e) doneDates else doneDates)
          entries {}"

definition renderCell :: "Clock \<Rightarrow> string set \<Rightarrow> nat option \<Rightarrow> Cell" where
  "renderCell clock doneDates cell =
     (case cell of
        None \<Rightarrow> Blank
      | Some day \<Rightarrow>
          let key = dateKey (now_year clock) (now_month clock) day;
              isDone = (key \<in> doneDates);
              isToday = (key = now_iso clock)
          in if isDone then Day day CellDone
             else if isToday then Day day CellToday
             else Day day CellPlain)"

record CheckinCalendar =
  weekLabels :: "string list"
  calendarCells :: "Cell list"

definition renderCheckinCalendar :: "Clock \<Rightarrow> GoalEntry list \<Rightarrow> CheckinCalendar option" where
  "renderCheckinCalendar clock entries =
     (if entries = [] then None
      else
        let doneDates = collectDoneDates entries in
        if doneDates = {} then None
        else
          let year = now_year clock;
              month = now_month clock;
              startWeekday = getDay_firstOfMonth year month;
              daysInMonth = getDate_lastOfMonth year month;
              cells = pushDays 1 daysInMonth (pushNulls 0 startWeekday [])
          in Some \<lparr> weekLabels = [''Su'', ''Mo'', ''Tu'', ''We'', ''Th'', ''Fr'', ''Sa''],
                    calendarCells = map (renderCell clock doneDates) cells \<rparr>)"

section \<open>Dashboard page (app/page.tsx, DashboardPage)\<close>

text \<open>
  The page is modelled by what it shows: whether the empty state is on, and a card for
  each pinned and each other goal with its summary line and its visual. The printing of
  dates and numbers is the platform's and is a parameter.
\<close>

record Formatters =
  toLocaleDateString :: "string \<Rightarrow> string"
  numberToString :: "number \<Rightarrow> string"

definition formatLatestSummary ::
  "Formatters \<Rightarrow> TrackerType option \<Rightarrow> GoalEntry option \<Rightarrow> string option \<Rightarrow> string" where
  "formatLatestSummary fmt trackerType entry u =
     (case entry of
        None \<Rightarrow> ''No entries yet''
      | Some e \<Rightarrow>
          let dateLabel = toLocaleDateString fmt (entry_date e) in
          if trackerType = Some checkin then
            (if is_done e = Some True then ''Last check-in: Done ('' @ dateLabel @ '')''
             else if is_done e = Some False then ''Last check-in: Not done ('' @ dateLabel @ '')''
             else ''Last check-in: Logged ('' @ dateLabel @ '')'')
          else if trackerType = Some numeric then
            (case entry_value e of
               None \<Rightarrow> ''Last entry: '' @ dateLabel
             | Some v \<Rightarrow>
                 let valueText = numberToString fmt v @ unitSuffix u
                 in ''Last entry: '' @ valueText @ '' ('' @ dateLabel @ '')'')
          else ''Last update: '' @ dateLabel)"

record GoalCard =
  card_goal :: Goal
  latestSummary :: string
  card_calendar :: "CheckinCalendar option"
  card_chart :: "NumericChart option"

definition renderGoalCard :: "Formatters \<Rightarrow> Clock \<Rightarrow> DashboardData \<Rightarrow> Goal \<Rightarrow> bool \<Rightarrow> GoalCard" where
  "renderGoalCard fmt clock dd goal isPinned =
     (let latest = latestEntriesByGoal dd (gid goal);
          entries = (case entriesByGoal dd (gid goal) of None \<Rightarrow> [] | Some es \<Rightarrow> es)
      in \<lparr> card_goal = goal,
           latestSummary = formatLatestSummary fmt (tracker_type goal) latest (unit goal),
           card_calendar = (if isPinned \<and> tracker_type goal = Some checkin
                            then renderCheckinCalendar clock entries else None),
           card_chart = (if isPinned \<and> tracker_type goal = Some numeric
                         then renderNumericChart entries (unit goal) (target_value goal)
                         else None) \<rparr>)"

record DashboardView =
  emptyState :: bool
  pinned :: "GoalCard list"
  other :: "GoalCard list"

definition DashboardPage ::
  "(string \<Rightarrow> number) \<Rightarrow> Formatters \<Rightarrow> Clock \<Rightarrow> Goal QueryResult
     \<Rightarrow> (string list \<Rightarrow> GoalEntry QueryResult) \<Rightarrow> DashboardView" where
  "DashboardPage getTime fmt clock goalsResult fetchEntries =
     (let dd = getDashboardData getTime goalsResult fetchEntries;
          pinnedGoals = filter (\<lambda>g. is_pinned g) (goals dd);
          otherGoals = filter (\<lambda>g. \<not> is_pinned g) (goals dd)
      in \<lparr> emptyState = (goals dd = []),
           pinned = map (\<lambda>goal. renderGoalCard fmt clock dd goal True) pinnedGoals,
           other = map (\<lambda>goal. renderGoalCard fmt clock dd goal False) otherGoals \<rparr>)"

section \<open>Notions of the specification\<close>

text \<open>
  The coordinate transform as the specification writes it:
  \<^verbatim>\<open>y(value) = H - Py - ((value - scaleMin) / range) * (H - 2*Py)\<close>.
\<close>

definition y_transform :: "number \<Rightarrow> number \<Rightarrow> number \<Rightarrow> number" where
  "y_transform smin rng v =
     nsub (nsub height paddingY)
          (nmul (ndiv (nsub v smin) rng) (nsub height (nmul (Fin 2) paddingY)))"

text \<open>The done-set of the calendar: the dates of the entries whose \<^verbatim>\<open>is_done\<close> is true.\<close>

definition doneSet :: "GoalEntry list \<Rightarrow> string set" where
  "doneSet entries = set (map entry_date (filter (\<lambda>e. is_done e = Some True) entries))"

text \<open>The tag of a day cell: done wins over today, and plain is what remains.\<close>

definition cellStyle :: "Clock \<Rightarrow> string set \<Rightarrow> nat \<Rightarrow> CellStyle" where
  "cellStyle clock D d =
     (if dateKey (now_year clock) (now_month clock) d \<in> D then CellDone
      else if dateKey (now_year clock) (now_month clock) d = now_iso clock then CellToday
      else CellPlain)"

text \<open>
  The comparator of the two sorts is an ordering only when every date and timestamp
  parses to a time and distinct \<^verbatim>\<open>entry_date\<close> strings parse to distinct times, as the
  store's \<^verbatim>\<open>date\<close> column (printed \<^verbatim>\<open>YYYY-MM-DD\<close>) guarantees. Outside of this the
  language leaves the result of \<^verbatim>\<open>sort\<close> to the implementation.
\<close>

definition datesParse :: "(string \<Rightarrow> number) \<Rightarrow> GoalEntry list \<Rightarrow> bool" where
  "datesParse getTime es =
     ((\<forall>e\<in>set es. isFinite (getTime (entry_date e)) \<and> isFinite (getTime (created_at e)))
      \<and> (\<forall>a\<in>set es. \<forall>b\<in>set es.
            getTime (entry_date a) = getTime (entry_date b) \<longrightarrow> entry_date a = entry_date b))"

text \<open>
  What the store's \<^verbatim>\<open>order("entry_date", ascending).order("created_at", ascending)\<close>
  promises of the rows it returns: oldest first, ties on the date by insertion time.
\<close>

definition earlierOrSame :: "(string \<Rightarrow> number) \<Rightarrow> GoalEntry \<Rightarrow> GoalEntry \<Rightarrow> bool" where
  "earlierOrSame getTime a b =
     (nlt (getTime (entry_date a)) (getTime (entry_date b))
      \<or> (entry_date a = entry_date b \<and> nle (getTime (created_at a)) (getTime (created_at b))))"

definition chronological :: "(string \<Rightarrow> number) \<Rightarrow> GoalEntry list \<Rightarrow> bool" where
  "chronological getTime es = sorted_wrt (earlierOrSame getTime) es"

fun fin :: "number \<Rightarrow> rat" where
  "fin (Fin a) = a"
| "fin _ = 0"

text \<open>The sort key of "most recent first": date descending, then insertion time descending.\<close>

definition recentFirstKey :: "(string \<Rightarrow> number) \<Rightarrow> GoalEntry \<Rightarrow> rat \<times> rat" where
  "recentFirstKey getTime e = (- fin (getTime (entry_date e)), - fin (getTime (created_at e)))"

section \<open>The entries query of the dashboard (app/page.tsx, getDashboardData)\<close>

text \<open>
  The query that \<^verbatim>\<open>getDashboardData\<close> sends for the entries is
  \<^verbatim>\<open>.in("goal_id", goalIds).order("entry_date", { ascending: true })
  .order("created_at", { ascending: true })\<close>. The store holds the table as a list of rows,
  keeps the rows of the goals asked for and returns them sorted by date, then by
  insertion time, both ascending. The store compares the date and the timestamp
  themselves; the model reads them with \<open>getTime\<close>. Rows that agree on both keep their
  table order. \<open>selectEntries\<close> is the answer of a read that succeeds.
\<close>

definition chronologicalKey :: "(string \<Rightarrow> number) \<Rightarrow> GoalEntry \<Rightarrow> rat \<times> rat" where
  "chronologicalKey getTime e = (fin (getTime (entry_date e)), fin (getTime (created_at e)))"

definition selectEntries ::
  "(string \<Rightarrow> number) \<Rightarrow> GoalEntry list \<Rightarrow> string list \<Rightarrow> GoalEntry QueryResult" where
  "selectEntries getTime rows goalIds =
     \<lparr> data = Some (sort_key (chronologicalKey getTime)
                       (filter (\<lambda>e. goal_id e \<in> set goalIds) rows)),
       error = None \<rparr>"

text \<open>
  The entries that \<^verbatim>\<open>renderGoalCard\<close> passes to the calendar and to the chart of a goal:
  \<^verbatim>\<open>entriesByGoal.get(goal.id) ?? []\<close>.
\<close>

definition cardEntries :: "DashboardData \<Rightarrow> Goal \<Rightarrow> GoalEntry list" where
  "cardEntries dd goal = (case entriesByGoal dd (gid goal) of None \<Rightarrow> [] | Some es \<Rightarrow> es)"

text \<open>What \<^verbatim>\<open>getDashboardData\<close> returns over a table of rows when both reads succeed.\<close>

definition dashboardOfStore :: "(string \<Rightarrow> number) \<Rightarrow> Goal list \<Rightarrow> GoalEntry list \<Rightarrow> DashboardData" where
  "dashboardOfStore getTime gs rows =
     getDashboardData getTime \<lparr> data = Some gs, error = None \<rparr> (selectEntries getTime rows)"

section \<open>Scenarios of the specification\<close>

text \<open>A clock-free reading of the few date strings the scenarios use, in milliseconds.\<close>

definition scenario_getTime :: "string \<Rightarrow> number" where
  "scenario_getTime s =
     (case map_of [(''2024-06-01'', Fin 1717200000000),
                   (''2024-06-02'', Fin 1717286400000),
                   (''2024-06-03'', Fin 1717372800000),
                   (''2024-06-01T08:00:00Z'', Fin 1717228800000),
                   (''2024-06-01T09:00:00Z'', Fin 1717232400000),
                   (''2024-06-02T08:00:00Z'', Fin 1717315200000),
                   (''2024-06-03T08:00:00Z'', Fin 1717401600000)] s of
        None \<Rightarrow> NaN
      | Some t \<Rightarrow> t)"

text \<open>Scenario A: two entries of one goal on the same day, the second created later.\<close>

definition scenarioA_first :: GoalEntry where
  "scenarioA_first =
     \<lparr> entry_id = ''a1'', goal_id = ''g0'', entry_date = ''2024-06-01'', is_done = None,
       entry_value = Some (Fin 70), reflection = None, created_at = ''2024-06-01T08:00:00Z'' \<rparr>"

definition scenarioA_second :: GoalEntry where
  "scenarioA_second =
     \<lparr> entry_id = ''a2'', goal_id = ''g0'', entry_date = ''2024-06-01'', is_done = None,
       entry_value = Some (Fin 71), reflection = None, created_at = ''2024-06-01T09:00:00Z'' \<rparr>"

text \<open>Scenario B: a numeric goal with target 68 and the values 80, 75, 70.\<close>

definition scenarioB_entries :: "GoalEntry list" where
  "scenarioB_entries =
     [\<lparr> entry_id = ''e1'', goal_id = ''g1'', entry_date = ''2024-06-01'', is_done = None,
         entry_value = Some (Fin 80), reflection = None, created_at = ''2024-06-01T08:00:00Z'' \<rparr>,
      \<lparr> entry_id = ''e2'', goal_id = ''g1'', entry_date = ''2024-06-02'', is_done = None,
         entry_value = Some (Fin 75), reflection = None, created_at = ''2024-06-02T08:00:00Z'' \<rparr>,
      \<lparr> entry_id = ''e3'', goal_id = ''g1'', entry_date = ''2024-06-03'', is_done = None,
         entry_value = Some (Fin 70), reflection = None, created_at = ''2024-06-03T08:00:00Z'' \<rparr>]"

definition scenarioB_goal :: Goal where
  "scenarioB_goal =
     \<lparr> gid = ''g1'', user_id = None, title = ''Reach 68 kg'', description = None,
       goal_type = mid_term, tracker_type = Some numeric, unit = Some ''kg'',
       target_value = Some (Fin 68), target_date = None, is_pinned = True, is_hidden = False,
       sort_order = 100, goal_created_at = ''2024-06-01T08:00:00Z'',
       updated_at = ''2024-06-03T08:00:00Z'' \<rparr>"

text \<open>
  The goal of scenario A, and a table that holds the rows of scenarios A and B in no
  particular order.
\<close>

definition scenarioA_goal :: Goal where
  "scenarioA_goal =
     \<lparr> gid = ''g0'', user_id = None, title = ''Weight'', description = None,
       goal_type = mid_term, tracker_type = Some numeric, unit = Some ''kg'',
       target_value = None, target_date = None, is_pinned = True, is_hidden = False,
       sort_order = 200, goal_created_at = ''2024-06-01T08:00:00Z'',
       updated_at = ''2024-06-01T09:00:00Z'' \<rparr>"

definition scenario_table :: "GoalEntry list" where
  "scenario_table = rev scenarioB_entries @ [scenarioA_second, scenarioA_first]"

text \<open>Scenario C: a check-in goal seen on 2024-06-15, done on the 1st and on the 15th.\<close>

definition scenarioC_clock :: Clock where
  "scenarioC_clock = \<lparr> now_year = 2024, now_month = 5, now_iso = ''2024-06-15'' \<rparr>"

definition scenarioC_entries :: "GoalEntry list" where
  "scenarioC_entries =
     [\<lparr> entry_id = ''c1'', goal_id = ''g2'', entry_date = ''2024-06-01'', is_done = Some True,
         entry_value = None, reflection = None, created_at = ''2024-06-01T08:00:00Z'' \<rparr>,
      \<lparr> entry_id = ''c2'', goal_id = ''g2'', entry_date = ''2024-06-15'', is_done = Some True,
         entry_value = None, reflection = None, created_at = ''2024-06-15T08:00:00Z'' \<rparr>]"

section \<open>Order and extrema of numbers\<close>

lemma nle_refl: "\<not> isNaN a \<Longrightarrow> nle a a"
  by (simp add: nle_def)

lemma nle_trans: "nle a b \<Longrightarrow> nle b c \<Longrightarrow> nle a c"
  by (cases a; cases b; cases c) (auto simp: nle_def)

lemma min2_notNaN: "\<not> isNaN a \<Longrightarrow> \<not> isNaN b \<Longrightarrow> \<not> isNaN (min2 a b)"
  by (simp add: min2_def)

lemma max2_notNaN: "\<not> isNaN a \<Longrightarrow> \<not> isNaN b \<Longrightarrow> \<not> isNaN (max2 a b)"
  by (simp add: max2_def)

lemma min2_le1: "\<not> isNaN a \<Longrightarrow> \<not> isNaN b \<Longrightarrow> nle (min2 a b) a"
  by (cases a; cases b) (auto simp: nle_def min2_def)

lemma min2_le2: "\<not> isNaN a \<Longrightarrow> \<not> isNaN b \<Longrightarrow> nle (min2 a b) b"
  by (cases a; cases b) (auto simp: nle_def min2_def)

lemma max2_ge1: "\<not> isNaN a \<Longrightarrow> \<not> isNaN b \<Longrightarrow> nle a (max2 a b)"
  by (cases a; cases b) (auto simp: nle_def max2_def)

lemma max2_ge2: "\<not> isNaN a \<Longrightarrow> \<not> isNaN b \<Longrightarrow> nle b (max2 a b)"
  by (cases a; cases b) (auto simp: nle_def max2_def)

lemma foldl_min2_props:
  "\<not> isNaN a \<Longrightarrow> \<forall>v\<in>set vs. \<not> isNaN v \<Longrightarrow>
     \<not> isNaN (foldl min2 a vs) \<and> nle (foldl min2 a vs) a \<and> (\<forall>v\<in>set vs. nle (foldl min2 a vs) v)"
proof (induction vs arbitrary: a)
  case Nil
  then show ?case by (simp add: nle_refl)
next
  case (Cons x xs)
  have nx: "\<not> isNaN x" and nm: "\<not> isNaN (min2 a x)"
    using Cons.prems by (simp_all add: min2_notNaN)
  have ih: "\<not> isNaN (foldl min2 (min2 a x) xs) \<and> nle (foldl min2 (min2 a x) xs) (min2 a x)
        \<and> (\<forall>v\<in>set xs. nle (foldl min2 (min2 a x) xs) v)"
    using Cons.IH [OF nm] Cons.prems by simp
  have "nle (foldl min2 (min2 a x) xs) a"
    using ih min2_le1 [OF Cons.prems(1) nx] nle_trans by blast
  moreover have "nle (foldl min2 (min2 a x) xs) x"
    using ih min2_le2 [OF Cons.prems(1) nx] nle_trans by blast
  ultimately show ?case using ih by simp
qed

lemma foldl_max2_props:
  "\<not> isNaN a \<Longrightarrow> \<forall>v\<in>set vs. \<not> isNaN v \<Longrightarrow>
     \<not> isNaN (foldl max2 a vs) \<and> nle a (foldl max2 a vs) \<and> (\<forall>v\<in>set vs. nle v (foldl max2 a vs))"
proof (induction vs arbitrary: a)
  case Nil
  then show ?case by (simp add: nle_refl)
next
  case (Cons x xs)
  have nx: "\<not> isNaN x" and nm: "\<not> isNaN (max2 a x)"
    using Cons.prems by (simp_all add: max2_notNaN)
  have ih: "\<not> isNaN (foldl max2 (max2 a x) xs) \<and> nle (max2 a x) (foldl max2 (max2 a x) xs)
        \<and> (\<forall>v\<in>set xs. nle v (foldl max2 (max2 a x) xs))"
    using Cons.IH [OF nm] Cons.prems by simp
  have "nle a (foldl max2 (max2 a x) xs)"
    using ih max2_ge1 [OF Cons.prems(1) nx] nle_trans by blast
  moreover have "nle x (foldl max2 (max2 a x) xs)"
    using ih max2_ge2 [OF Cons.prems(1) nx] nle_trans by blast
  ultimately show ?case using ih by simp
qed

lemma Math_min_props:
  "\<forall>v\<in>set vs. \<not> isNaN v \<Longrightarrow> \<not> isNaN (Math_min vs) \<and> (\<forall>v\<in>set vs. nle (Math_min vs) v)"
  using foldl_min2_props [of PInf vs] by (simp add: Math_min_def)

lemma Math_max_props:
  "\<forall>v\<in>set vs. \<not> isNaN v \<Longrightarrow> \<not> isNaN (Math_max vs) \<and> (\<forall>v\<in>set vs. nle v (Math_max vs))"
  using foldl_max2_props [of NInf vs] by (simp add: Math_max_def)

lemma foldl_min2_NaN: "isNaN a \<or> (\<exists>v\<in>set vs. isNaN v) \<Longrightarrow> foldl min2 a vs = NaN"
proof (induction vs arbitrary: a)
  case Nil
  then show ?case by (cases a) simp_all
next
  case (Cons x xs)
  have "isNaN (min2 a x) \<or> (\<exists>v\<in>set xs. isNaN v)"
    using Cons.prems by (auto simp: min2_def)
  then show ?case using Cons.IH by simp
qed

lemma foldl_max2_NaN: "isNaN a \<or> (\<exists>v\<in>set vs. isNaN v) \<Longrightarrow> foldl max2 a vs = NaN"
proof (induction vs arbitrary: a)
  case Nil
  then show ?case by (cases a) simp_all
next
  case (Cons x xs)
  have "isNaN (max2 a x) \<or> (\<exists>v\<in>set xs. isNaN v)"
    using Cons.prems by (auto simp: max2_def)
  then show ?case using Cons.IH by simp
qed

lemma foldl_min2_const: "\<forall>v\<in>set vs. v = Fin c \<Longrightarrow> foldl min2 (Fin c) vs = Fin c"
  by (induction vs) (simp_all add: min2_def)

lemma foldl_max2_const: "\<forall>v\<in>set vs. v = Fin c \<Longrightarrow> foldl max2 (Fin c) vs = Fin c"
  by (induction vs) (simp_all add: max2_def)

lemma Math_min_const: "vs \<noteq> [] \<Longrightarrow> \<forall>v\<in>set vs. v = Fin c \<Longrightarrow> Math_min vs = Fin c"
  by (cases vs) (simp_all add: Math_min_def min2_def foldl_min2_const)

lemma Math_max_const: "vs \<noteq> [] \<Longrightarrow> \<forall>v\<in>set vs. v = Fin c \<Longrightarrow> Math_max vs = Fin c"
  by (cases vs) (simp_all add: Math_max_def max2_def foldl_max2_const)

lemma nmul_commute: "nmul a b = nmul b a"
  by (cases a; cases b) auto

lemma orOne_nonzero: "orOne r \<noteq> Fin 0"
  by (simp add: orOne_def truthy_def)

lemma orOne_diff_pos: "nle a b \<Longrightarrow> ngt (orOne (nsub b a)) (Fin 0)"
  by (cases a; cases b) (auto simp: nle_def ngt_def orOne_def truthy_def nsub_def)

lemma orOne_NaN_pos: "isNaN a \<or> isNaN b \<Longrightarrow> ngt (orOne (nsub b a)) (Fin 0)"
  by (cases a; cases b) (auto simp: ngt_def orOne_def truthy_def nsub_def)

section \<open>The plotting scale\<close>

lemma chart_range_pos:
  assumes "vs \<noteq> []"
  shows "ngt (chart_range vs tv) (Fin 0)"
proof (cases "\<exists>v\<in>set vs. isNaN v")
  case True
  then have "Math_min vs = NaN"
    by (simp add: Math_min_def foldl_min2_NaN)
  then have "isNaN (scaleMin vs tv)"
    by (simp add: scaleMin_def min2_def)
  then show ?thesis
    by (simp add: chart_range_def orOne_NaN_pos)
next
  case False
  then have nn: "\<forall>v\<in>set vs. \<not> isNaN v" by simp
  obtain x where x: "x \<in> set vs" using assms by (cases vs) auto
  have mn: "\<not> isNaN (Math_min vs)" "nle (Math_min vs) x"
    using Math_min_props [OF nn] x by simp_all
  have mx: "\<not> isNaN (Math_max vs)" "nle x (Math_max vs)"
    using Math_max_props [OF nn] x by simp_all
  have mm: "nle (Math_min vs) (Math_max vs)"
    using mn(2) mx(2) nle_trans by blast
  have "nle (scaleMin vs tv) (scaleMax vs tv)"
  proof (cases "hasTarget tv")
    case True
    then obtain t where t: "tv = Some t" "\<not> isNaN t"
      by (cases tv) (auto simp: hasTarget_def)
    have "nle (min2 (Math_min vs) t) (Math_min vs)" using min2_le1 [OF mn(1) t(2)] .
    moreover have "nle (Math_max vs) (max2 (Math_max vs) t)" using max2_ge1 [OF mx(1) t(2)] .
    ultimately have "nle (min2 (Math_min vs) t) (max2 (Math_max vs) t)"
      using mm nle_trans by blast
    then show ?thesis using True t by (simp add: scaleMin_def scaleMax_def)
  next
    case False
    then show ?thesis using mm by (simp add: scaleMin_def scaleMax_def)
  qed
  then show ?thesis
    by (simp add: chart_range_def orOne_diff_pos)
qed

lemma points_y_transform:
  "map snd (points nes tv)
     = map (\<lambda>e. y_transform (scaleMin (entryValues nes) tv) (chart_range (entryValues nes) tv)
                   (the (entry_value e))) nes"
proof -
  let ?Y = "\<lambda>e. y_transform (scaleMin (entryValues nes) tv) (chart_range (entryValues nes) tv)
                   (the (entry_value e))"
  have "map snd (points nes tv) = map (\<lambda>p. ?Y (snd p)) (enumerate 0 nes)"
    by (simp add: points_def y_transform_def nmul_commute [of "Fin 2"] case_prod_beta)
  also have "\<dots> = map ?Y (map snd (enumerate 0 nes))"
    by (simp only: map_map comp_def)
  also have "\<dots> = map ?Y nes"
    by (simp only: map_snd_enumerate)
  finally show ?thesis .
qed

lemma points_no_target: "points nes None = detail_points nes"
  by (simp add: points_def detail_points_def scaleMin_def chart_range_def detail_range_def
      scaleMax_def hasTarget_def stepX_def detail_stepX_def width_def detail_width_def
      height_def detail_height_def paddingX_def detail_paddingX_def paddingY_def
      detail_paddingY_def)

lemma scenarioB_values:
  "numericEntries scenarioB_entries = scenarioB_entries
   \<and> entryValues scenarioB_entries = [Fin 80, Fin 75, Fin 70]
   \<and> scenarioB_entries \<noteq> []"
  by (simp add: scenarioB_entries_def numericEntries_def entryValues_def)

lemma scenarioB_scale:
  "scaleMin [Fin 80, Fin 75, Fin 70] (Some (Fin 68)) = Fin 68
   \<and> scaleMax [Fin 80, Fin 75, Fin 70] (Some (Fin 68)) = Fin 80
   \<and> chart_range [Fin 80, Fin 75, Fin 70] (Some (Fin 68)) = Fin 12
   \<and> targetY [Fin 80, Fin 75, Fin 70] (Some (Fin 68)) = Some (Fin 108)"
  by (simp add: targetY_def ngt_def chart_range_def orOne_def truthy_def scaleMin_def scaleMax_def
      hasTarget_def Math_min_def Math_max_def min2_def max2_def nsub_def height_def paddingY_def)

lemma plot_edges:
  "nsub height paddingY = Fin 108 \<and> nsub height (Fin 12) = Fin 108
   \<and> paddingY = Fin 12 \<and> paddingX = Fin 16"
  by (simp add: nsub_def height_def paddingY_def paddingX_def)

text \<open>
  C3. For every non-empty list of numeric entry values and every present target, none of
  them NaN (finite values in particular), the dashboard chart is drawn and its scale is
  \<open>scaleMin = min (min values) target\<close>, \<open>scaleMax = max (max values) target\<close>, with
  \<open>scaleMin \<le> target \<le> scaleMax\<close>, \<open>scaleMin \<le> min values\<close>, \<open>scaleMax \<ge> max values\<close>,
  and so every value lies between the two bounds.
\<close>

theorem scale_contains_target_and_values:
  assumes ne: "numericEntries entries \<noteq> []"
    and vals: "\<forall>v\<in>set (entryValues (numericEntries entries)). \<not> isNaN v"
    and tgt: "\<not> isNaN t"
  shows "renderNumericChart entries u (Some t) \<noteq> None
       \<and> scaleMin (entryValues (numericEntries entries)) (Some t)
           = min2 (Math_min (entryValues (numericEntries entries))) t
       \<and> scaleMax (entryValues (numericEntries entries)) (Some t)
           = max2 (Math_max (entryValues (numericEntries entries))) t
       \<and> nle (scaleMin (entryValues (numericEntries entries)) (Some t)) t
       \<and> nle t (scaleMax (entryValues (numericEntries entries)) (Some t))
       \<and> nle (scaleMin (entryValues (numericEntries entries)) (Some t))
             (Math_min (entryValues (numericEntries entries)))
       \<and> nge (scaleMax (entryValues (numericEntries entries)) (Some t))
             (Math_max (entryValues (numericEntries entries)))
       \<and> (\<forall>v\<in>set (entryValues (numericEntries entries)).
             nle (scaleMin (entryValues (numericEntries entries)) (Some t)) v
             \<and> nle v (scaleMax (entryValues (numericEntries entries)) (Some t)))"
proof -
  let ?vs = "entryValues (numericEntries entries)"
  have mn: "\<not> isNaN (Math_min ?vs)" and mnle: "\<forall>v\<in>set ?vs. nle (Math_min ?vs) v"
    using Math_min_props [OF vals] by simp_all
  have mx: "\<not> isNaN (Math_max ?vs)" and mxge: "\<forall>v\<in>set ?vs. nle v (Math_max ?vs)"
    using Math_max_props [OF vals] by simp_all
  have h: "hasTarget (Some t)" using tgt by (simp add: hasTarget_def)
  have smin: "scaleMin ?vs (Some t) = min2 (Math_min ?vs) t"
    and smax: "scaleMax ?vs (Some t) = max2 (Math_max ?vs) t"
    using h by (simp_all add: scaleMin_def scaleMax_def)
  have drawn: "renderNumericChart entries u (Some t) \<noteq> None"
    using ne by (simp add: renderNumericChart_def Let_def)
  have lo: "nle (scaleMin ?vs (Some t)) (Math_min ?vs)" "nle (scaleMin ?vs (Some t)) t"
    using smin min2_le1 [OF mn tgt] min2_le2 [OF mn tgt] by simp_all
  have hi: "nle (Math_max ?vs) (scaleMax ?vs (Some t))" "nle t (scaleMax ?vs (Some t))"
    using smax max2_ge1 [OF mx tgt] max2_ge2 [OF mx tgt] by simp_all
  have each: "\<forall>v\<in>set ?vs. nle (scaleMin ?vs (Some t)) v \<and> nle v (scaleMax ?vs (Some t))"
    using lo(1) hi(1) mnle mxge nle_trans by blast
  show ?thesis
    using drawn smin smax lo hi each by (simp add: nge_def)
qed

theorem scale_contains_target_and_values_witness:
  "numericEntries scenarioB_entries \<noteq> []
   \<and> list_all (\<lambda>v. \<not> isNaN v) (entryValues (numericEntries scenarioB_entries))
   \<and> \<not> isNaN (Fin 68)
   \<and> renderNumericChart scenarioB_entries None (Some (Fin 68)) \<noteq> None
   \<and> nle (scaleMin (entryValues (numericEntries scenarioB_entries)) (Some (Fin 68))) (Fin 68)
   \<and> nle (Fin 68) (scaleMax (entryValues (numericEntries scenarioB_entries)) (Some (Fin 68)))
   \<and> scaleMin (entryValues (numericEntries scenarioB_entries)) (Some (Fin 68)) = Fin 68
   \<and> scaleMax (entryValues (numericEntries scenarioB_entries)) (Some (Fin 68)) = Fin 80"
proof -
  have h1: "numericEntries scenarioB_entries \<noteq> []"
    by (simp add: scenarioB_entries_def numericEntries_def)
  have h2: "\<forall>v\<in>set (entryValues (numericEntries scenarioB_entries)). \<not> isNaN v"
    by (simp add: scenarioB_values)
  have h3: "\<not> isNaN (Fin 68)" by simp
  show ?thesis
    using h1 h2 h3 scale_contains_target_and_values [OF h1 h2 h3, of None]
    by (simp add: scenarioB_values scenarioB_scale)
qed

text \<open>
  C4. The divisor of the y computation is never zero: whenever \<open>scaleMax - scaleMin\<close> is
  zero it falls back to one, which happens when all values are identical with no target,
  and when the target equals the single value. For a single finite entry with no target
  the one emitted point is \<open>(16, 108)\<close>, that is \<open>(Px, H - Py)\<close>.
\<close>

theorem range_falls_back_to_one:
  "chart_range vs tv \<noteq> Fin 0
   \<and> (nsub (scaleMax vs tv) (scaleMin vs tv) = Fin 0 \<longrightarrow> chart_range vs tv = Fin 1)
   \<and> (vs \<noteq> [] \<and> (\<forall>v\<in>set vs. v = Fin c) \<longrightarrow> chart_range vs None = Fin 1)
   \<and> (chart_range [Fin c] (Some (Fin c)) = Fin 1)
   \<and> (entry_value e = Some (Fin c) \<longrightarrow>
        map_option polylinePoints (renderNumericChart [e] u None) = Some [(Fin 16, Fin 108)]
        \<and> map_option circles (renderNumericChart [e] u None) = Some [(paddingX, nsub height paddingY)])"
proof -
  have a: "chart_range vs tv \<noteq> Fin 0"
    by (simp add: chart_range_def orOne_nonzero)
  have b: "nsub (scaleMax vs tv) (scaleMin vs tv) = Fin 0 \<longrightarrow> chart_range vs tv = Fin 1"
    by (simp add: chart_range_def orOne_def truthy_def)
  have c: "vs \<noteq> [] \<and> (\<forall>v\<in>set vs. v = Fin c) \<longrightarrow> chart_range vs None = Fin 1"
  proof
    assume h: "vs \<noteq> [] \<and> (\<forall>v\<in>set vs. v = Fin c)"
    have "Math_min vs = Fin c" and "Math_max vs = Fin c"
      using h Math_min_const Math_max_const by blast+
    then show "chart_range vs None = Fin 1"
      by (simp add: chart_range_def orOne_def truthy_def scaleMin_def scaleMax_def hasTarget_def
          nsub_def)
  qed
  have d: "chart_range [Fin c] (Some (Fin c)) = Fin 1"
    by (simp add: chart_range_def orOne_def truthy_def scaleMin_def scaleMax_def hasTarget_def
        Math_min_def Math_max_def min2_def max2_def nsub_def)
  have e: "entry_value e = Some (Fin c) \<longrightarrow>
        map_option polylinePoints (renderNumericChart [e] u None) = Some [(Fin 16, Fin 108)]
        \<and> map_option circles (renderNumericChart [e] u None) = Some [(paddingX, nsub height paddingY)]"
    by (simp add: renderNumericChart_def numericEntries_def entryValues_def points_def stepX_def
        chart_range_def orOne_def truthy_def scaleMin_def scaleMax_def hasTarget_def
        Math_min_def Math_max_def min2_def max2_def nsub_def
        width_def height_def paddingX_def paddingY_def Let_def)
  show ?thesis using a b c d e by blast
qed

theorem range_falls_back_to_one_witness:
  "nsub (scaleMax [Fin 70, Fin 70] None) (scaleMin [Fin 70, Fin 70] None) = Fin 0
   \<and> chart_range [Fin 70, Fin 70] None = Fin 1
   \<and> entry_value scenarioA_first = Some (Fin 70)
   \<and> map_option polylinePoints (renderNumericChart [scenarioA_first] None None)
       = Some [(Fin 16, Fin 108)]"
proof -
  have h1: "nsub (scaleMax [Fin 70, Fin 70] None) (scaleMin [Fin 70, Fin 70] None) = Fin 0"
    by (simp add: scaleMin_def scaleMax_def hasTarget_def Math_min_def Math_max_def min2_def
        max2_def nsub_def)
  have h2: "entry_value scenarioA_first = Some (Fin 70)"
    by (simp add: scenarioA_first_def)
  show ?thesis
    using h1 h2 range_falls_back_to_one [of "[Fin 70, Fin 70]" None 70 scenarioA_first None]
    by blast
qed

text \<open>
  C5. For every non-empty numeric entry list and every present target that is not NaN
  (a finite one in particular), \<open>targetY\<close> and the y of every point are the one transform
  \<open>y(v) = H - Py - ((v - scaleMin) / range) * (H - 2 * Py)\<close>, and the chart emits the
  target line exactly when \<open>targetY\<close> lies in \<open>[Py, H - Py]\<close>, bounds included. For the
  target 68 and the values 80, 75, 70: \<open>scaleMin = 68\<close>, \<open>scaleMax = 80\<close>, \<open>range = 12\<close>,
  and the line is drawn at \<open>H - Py = 108\<close>, the bottom edge.
\<close>

theorem target_line_gate:
  assumes ne: "numericEntries entries \<noteq> []"
    and tgt: "\<not> isNaN t"
  shows "targetY (entryValues (numericEntries entries)) (Some t)
           = Some (y_transform (scaleMin (entryValues (numericEntries entries)) (Some t))
                               (chart_range (entryValues (numericEntries entries)) (Some t)) t)
       \<and> map snd (points (numericEntries entries) (Some t))
           = map (\<lambda>e. y_transform (scaleMin (entryValues (numericEntries entries)) (Some t))
                                    (chart_range (entryValues (numericEntries entries)) (Some t))
                                    (the (entry_value e)))
                 (numericEntries entries)
       \<and> (\<exists>c. renderNumericChart entries u (Some t) = Some c
             \<and> (\<forall>y. targetLine c = Some y \<longleftrightarrow>
                   y = y_transform (scaleMin (entryValues (numericEntries entries)) (Some t))
                               (chart_range (entryValues (numericEntries entries)) (Some t)) t
                   \<and> nge y paddingY \<and> nle y (nsub height paddingY)))
       \<and> scaleMin (entryValues (numericEntries scenarioB_entries)) (Some (Fin 68)) = Fin 68
       \<and> scaleMax (entryValues (numericEntries scenarioB_entries)) (Some (Fin 68)) = Fin 80
       \<and> chart_range (entryValues (numericEntries scenarioB_entries)) (Some (Fin 68)) = Fin 12
       \<and> targetY (entryValues (numericEntries scenarioB_entries)) (Some (Fin 68))
           = Some (nsub height paddingY)
       \<and> map_option targetLine (renderNumericChart scenarioB_entries u (Some (Fin 68)))
           = Some (Some (Fin 108))"
proof -
  let ?vs = "entryValues (numericEntries entries)"
  have h: "hasTarget (Some t)" using tgt by (simp add: hasTarget_def)
  have "?vs \<noteq> []" using ne by (simp add: entryValues_def)
  then have pos: "ngt (chart_range ?vs (Some t)) (Fin 0)" by (rule chart_range_pos)
  have ty: "targetY ?vs (Some t)
              = Some (y_transform (scaleMin ?vs (Some t)) (chart_range ?vs (Some t)) t)"
    using h pos by (simp add: targetY_def y_transform_def nmul_commute [of "Fin 2"])
  have line: "\<exists>c. renderNumericChart entries u (Some t) = Some c
             \<and> (\<forall>y. targetLine c = Some y \<longleftrightarrow>
                   y = y_transform (scaleMin ?vs (Some t)) (chart_range ?vs (Some t)) t
                   \<and> nge y paddingY \<and> nle y (nsub height paddingY))"
    using ne h ty by (auto simp: renderNumericChart_def Let_def targetLineShown_def)
  have shown: "targetLineShown [Fin 80, Fin 75, Fin 70] (Some (Fin 68))"
    by (simp add: targetLineShown_def scenarioB_scale plot_edges hasTarget_def nge_def nle_def)
  have scen: "map_option targetLine (renderNumericChart scenarioB_entries u (Some (Fin 68)))
           = Some (Some (Fin 108))"
    using shown
    by (simp add: renderNumericChart_def Let_def scenarioB_values scenarioB_scale)
  show ?thesis
    using ty line points_y_transform [of "numericEntries entries" "Some t"] scen
    by (simp add: scenarioB_values scenarioB_scale plot_edges)
qed

theorem target_line_gate_witness:
  "numericEntries scenarioB_entries \<noteq> [] \<and> \<not> isNaN (Fin 68)
   \<and> targetY (entryValues (numericEntries scenarioB_entries)) (Some (Fin 68))
       = Some (y_transform (Fin 68) (Fin 12) (Fin 68))
   \<and> y_transform (Fin 68) (Fin 12) (Fin 68) = Fin 108
   \<and> map snd (points (numericEntries scenarioB_entries) (Some (Fin 68)))
       = [Fin 12, Fin 52, Fin 92]"
proof -
  have h1: "numericEntries scenarioB_entries \<noteq> []"
    by (simp add: scenarioB_entries_def numericEntries_def)
  have h2: "\<not> isNaN (Fin 68)" by simp
  have y: "y_transform (Fin 68) (Fin 12) (Fin 68) = Fin 108
           \<and> y_transform (Fin 68) (Fin 12) (Fin 80) = Fin 12
           \<and> y_transform (Fin 68) (Fin 12) (Fin 75) = Fin 52
           \<and> y_transform (Fin 68) (Fin 12) (Fin 70) = Fin 92"
    by (simp add: y_transform_def nsub_def height_def paddingY_def)
  show ?thesis
    using h1 h2 y target_line_gate [OF h1 h2, of None]
    by (simp add: scenarioB_values scenarioB_scale) (simp add: scenarioB_entries_def)
qed

text \<open>
  C7. The Min and Max labels of the dashboard chart are the minimum and the maximum of the
  entry values alone, whatever the target is; a target below the data's minimum (above
  its maximum) becomes the lower (upper) bound of the plotting scale, which then differs
  from the label.
\<close>

theorem labels_ignore_target:
  "renderNumericChart entries u tv = Some c \<Longrightarrow>
     fst (minLabel c) = Math_min (entryValues (numericEntries entries))
   \<and> fst (maxLabel c) = Math_max (entryValues (numericEntries entries))
   \<and> (\<forall>t. tv = Some t \<and> nlt t (Math_min (entryValues (numericEntries entries))) \<longrightarrow>
          scaleMin (entryValues (numericEntries entries)) tv = t
        \<and> scaleMin (entryValues (numericEntries entries)) tv \<noteq> fst (minLabel c))
   \<and> (\<forall>t. tv = Some t \<and> nlt (Math_max (entryValues (numericEntries entries))) t \<longrightarrow>
          scaleMax (entryValues (numericEntries entries)) tv = t
        \<and> scaleMax (entryValues (numericEntries entries)) tv \<noteq> fst (maxLabel c))"
proof -
  assume r: "renderNumericChart entries u tv = Some c"
  let ?vs = "entryValues (numericEntries entries)"
  have mn: "fst (minLabel c) = Math_min ?vs" and mx: "fst (maxLabel c) = Math_max ?vs"
    using r by (auto simp: renderNumericChart_def Let_def split: if_splits)
  have lo: "scaleMin ?vs (Some t) = t \<and> t \<noteq> Math_min ?vs" if "nlt t (Math_min ?vs)" for t
    using that by (cases t; cases "Math_min ?vs") (auto simp: scaleMin_def hasTarget_def min2_def)
  have hi: "scaleMax ?vs (Some t) = t \<and> t \<noteq> Math_max ?vs" if "nlt (Math_max ?vs) t" for t
    using that by (cases t; cases "Math_max ?vs") (auto simp: scaleMax_def hasTarget_def max2_def)
  show ?thesis using mn mx lo hi by auto
qed

theorem labels_ignore_target_witness:
  "(\<exists>c. renderNumericChart scenarioB_entries None (Some (Fin 68)) = Some c
        \<and> fst (minLabel c) = Fin 70 \<and> fst (maxLabel c) = Fin 80)
   \<and> nlt (Fin 68) (Math_min (entryValues (numericEntries scenarioB_entries)))
   \<and> scaleMin (entryValues (numericEntries scenarioB_entries)) (Some (Fin 68)) = Fin 68"
proof -
  obtain c where c: "renderNumericChart scenarioB_entries None (Some (Fin 68)) = Some c"
    by (simp add: renderNumericChart_def Let_def scenarioB_entries_def numericEntries_def)
  have m: "Math_min [Fin 80, Fin 75, Fin 70] = Fin 70 \<and> Math_max [Fin 80, Fin 75, Fin 70] = Fin 80"
    by (simp add: Math_min_def Math_max_def min2_def max2_def)
  show ?thesis
    using c m labels_ignore_target [OF c]
    by (simp add: scenarioB_values)
qed

text \<open>
  C9. With no target value, the dashboard chart and the chart of the goal page are drawn
  for the same entry lists and compute the same point sequence, for the polyline and for
  the circles; the goal page's chart has no target line, and neither has the dashboard's
  then.
\<close>

theorem detail_chart_same_points:
  "map_option polylinePoints (renderNumericChart entries u None)
     = map_option detail_polylinePoints (detail_renderNumericChart entries u')
   \<and> map_option circles (renderNumericChart entries u None)
     = map_option detail_circles (detail_renderNumericChart entries u')
   \<and> map_option targetLine (renderNumericChart entries u None)
     = map_option (\<lambda>_. None) (detail_renderNumericChart entries u')"
  by (simp add: renderNumericChart_def detail_renderNumericChart_def Let_def points_no_target
      targetLineShown_def hasTarget_def)

theorem detail_chart_same_points_witness:
  "map_option polylinePoints (renderNumericChart scenarioB_entries None None)
     = Some [(Fin 16, Fin 12), (Fin 160, Fin 60), (Fin 304, Fin 108)]
   \<and> map_option detail_polylinePoints (detail_renderNumericChart scenarioB_entries None)
     = Some [(Fin 16, Fin 12), (Fin 160, Fin 60), (Fin 304, Fin 108)]"
proof -
  have "map_option detail_polylinePoints (detail_renderNumericChart scenarioB_entries None)
     = Some [(Fin 16, Fin 12), (Fin 160, Fin 60), (Fin 304, Fin 108)]"
    by (simp add: detail_renderNumericChart_def Let_def scenarioB_entries_def numericEntries_def
        entryValues_def detail_points_def detail_range_def detail_stepX_def orOne_def
        truthy_def Math_min_def Math_max_def min2_def max2_def nsub_def
        detail_width_def detail_height_def detail_paddingX_def detail_paddingY_def)
  then show ?thesis
    using detail_chart_same_points [of scenarioB_entries None None] by simp
qed

text \<open>
  C10. A target value of NaN is no target: \<open>hasTarget\<close> is false, the scale is not
  extended, there is no \<open>targetY\<close> and no target line, and the whole chart, its points
  included, is the chart of the same entries with the target absent. The guard lets the
  two infinities through.
\<close>

theorem nan_target_is_no_target:
  "renderNumericChart entries u (Some NaN) = renderNumericChart entries u None
   \<and> \<not> hasTarget (Some NaN)
   \<and> scaleMin vs (Some NaN) = Math_min vs
   \<and> scaleMax vs (Some NaN) = Math_max vs
   \<and> targetY vs (Some NaN) = None
   \<and> \<not> targetLineShown vs (Some NaN)
   \<and> points nes (Some NaN) = points nes None
   \<and> hasTarget (Some PInf) \<and> hasTarget (Some NInf)"
  by (simp add: renderNumericChart_def Let_def points_def scaleMin_def scaleMax_def
      chart_range_def targetY_def targetLineShown_def hasTarget_def)

theorem nan_target_is_no_target_witness:
  "renderNumericChart scenarioB_entries None (Some NaN)
     = renderNumericChart scenarioB_entries None None
   \<and> scaleMin [Fin 80, Fin 75, Fin 70] (Some NaN) = Fin 70
   \<and> scaleMax [Fin 80, Fin 75, Fin 70] (Some NaN) = Fin 80"
proof -
  have m: "Math_min [Fin 80, Fin 75, Fin 70] = Fin 70 \<and> Math_max [Fin 80, Fin 75, Fin 70] = Fin 80"
    by (simp add: Math_min_def Math_max_def min2_def max2_def)
  show ?thesis
    using m nan_target_is_no_target [of scenarioB_entries None "[Fin 80, Fin 75, Fin 70]" "[]"]
    by simp
qed

section \<open>The month grid\<close>

lemma pushNulls_eq: "pushNulls i n cells = cells @ replicate (n - i) None"
proof (induction i n cells rule: pushNulls.induct)
  case (1 i n cells)
  show ?case
  proof (cases "i < n")
    case True
    then have "n - i = Suc (n - Suc i)" by simp
    then show ?thesis using True "1"
      by (subst pushNulls.simps) (simp add: replicate_append_same)
  next
    case False
    then show ?thesis by (subst pushNulls.simps) simp
  qed
qed

lemma pushDays_eq: "pushDays d n cells = cells @ map Some [d..<Suc n]"
proof (induction d n cells rule: pushDays.induct)
  case (1 d n cells)
  show ?case
  proof (cases "d \<le> n")
    case True
    then have "[d..<Suc n] = d # [Suc d..<Suc n]" by (simp add: upt_conv_Cons)
    then show ?thesis using True "1"
      by (subst pushDays.simps) simp
  next
    case False
    then show ?thesis by (subst pushDays.simps) simp
  qed
qed

lemma fold_doneDates:
  "fold (\<lambda>e doneDates. if is_done e = Some True then insert (entry_date e) doneDates else doneDates)
        entries S = S \<union> doneSet entries"
  by (induction entries arbitrary: S) (auto simp: doneSet_def)

lemma collectDoneDates_eq: "collectDoneDates entries = doneSet entries"
  by (simp add: collectDoneDates_def fold_doneDates)

lemma renderCell_Day: "renderCell clock D (Some d) = Day d (cellStyle clock D d)"
  by (simp add: renderCell_def cellStyle_def Let_def)

lemma renderCell_None: "renderCell clock D None = Blank"
  by (simp add: renderCell_def)

lemma calendar_cells_general:
  assumes "renderCheckinCalendar clock entries = Some cal"
  shows "calendarCells cal =
           replicate (getDay_firstOfMonth (now_year clock) (now_month clock)) Blank
           @ map (\<lambda>d. Day d (cellStyle clock (doneSet entries) d))
                 [1..<Suc (getDate_lastOfMonth (now_year clock) (now_month clock))]"
proof -
  let ?W = "getDay_firstOfMonth (now_year clock) (now_month clock)"
  let ?N = "getDate_lastOfMonth (now_year clock) (now_month clock)"
  have cal: "calendarCells cal
               = map (renderCell clock (doneSet entries)) (pushDays 1 ?N (pushNulls 0 ?W []))"
    using assms
    by (auto simp: renderCheckinCalendar_def Let_def collectDoneDates_eq split: if_splits)
  have cells: "pushDays 1 ?N (pushNulls 0 ?W []) = replicate ?W None @ map Some [1..<Suc ?N]"
    by (simp only: pushNulls_eq pushDays_eq append_Nil diff_zero)
  have "map (renderCell clock (doneSet entries)) (replicate ?W None @ map Some [1..<Suc ?N])
          = replicate ?W Blank @ map (\<lambda>d. Day d (cellStyle clock (doneSet entries) d)) [1..<Suc ?N]"
    by (simp add: renderCell_None renderCell_Day comp_def del: upt_Suc)
  then show ?thesis using cal cells by simp
qed

lemma getDay_lt_7: "getDay_firstOfMonth y m < 7"
  by (simp add: getDay_firstOfMonth_def Let_def)

lemma getDate_bounds: "28 \<le> getDate_lastOfMonth y m \<and> getDate_lastOfMonth y m \<le> 31"
  by (simp add: getDate_lastOfMonth_def)

lemma scenC_offsets: "getDay_firstOfMonth 2024 5 = 6 \<and> getDate_lastOfMonth 2024 5 = 30"
  by (simp add: getDay_firstOfMonth_def getDate_lastOfMonth_def Let_def)

lemma calendar_emitted_iff:
  "(renderCheckinCalendar clock entries \<noteq> None) = (doneSet entries \<noteq> {})"
proof (cases "entries = []")
  case True
  then show ?thesis by (simp add: renderCheckinCalendar_def doneSet_def)
next
  case False
  then show ?thesis by (simp add: renderCheckinCalendar_def Let_def collectDoneDates_eq)
qed

lemma days30:
  "[1..<31] = [1, 2, 3, 4, 5, 6, 7, 8, 9, 10, 11, 12, 13, 14, 15,
               16, 17, 18, 19, 20, 21, 22, 23, 24, 25, 26, 27, 28, 29, 30 :: nat]"
  by code_simp

lemma scenarioC_styles:
  "map (\<lambda>d. Day d (cellStyle scenarioC_clock (doneSet scenarioC_entries) d)) [1..<31]
     = map (\<lambda>d. Day d (if d = 1 \<or> d = 15 then CellDone else CellPlain)) [1..<31]"
  unfolding days30
  by (simp add: cellStyle_def dateKey_def padStart2_def String_nat.simps doneSet_def
      scenarioC_clock_def scenarioC_entries_def)

lemma scenarioC_cells:
  "map_option calendarCells (renderCheckinCalendar scenarioC_clock scenarioC_entries)
     = Some (replicate 6 Blank
             @ map (\<lambda>d. Day d (if d = 1 \<or> d = 15 then CellDone else CellPlain)) [1..<31])"
proof -
  have "doneSet scenarioC_entries \<noteq> {}"
    by (simp add: doneSet_def scenarioC_entries_def)
  then obtain cal where cal: "renderCheckinCalendar scenarioC_clock scenarioC_entries = Some cal"
    using calendar_emitted_iff [of scenarioC_clock scenarioC_entries] by blast
  have yr: "now_year scenarioC_clock = 2024" "now_month scenarioC_clock = 5"
    by (simp_all add: scenarioC_clock_def)
  have "calendarCells cal = replicate 6 Blank
          @ map (\<lambda>d. Day d (cellStyle scenarioC_clock (doneSet scenarioC_entries) d)) [1..<31]"
    using calendar_cells_general [OF cal] scenC_offsets by (simp only: yr) simp
  then show ?thesis using cal scenarioC_styles by simp
qed

lemma digit_inj:
  "a < 10 \<Longrightarrow> b < 10 \<Longrightarrow> (''0123456789'' ! a = ''0123456789'' ! b) = (a = b)"
  by (rule nth_eq_iff_index_eq) simp_all

lemma padStart2_String_nat:
  assumes "d < 100"
  shows "padStart2 (String_nat d) = [''0123456789'' ! (d div 10), ''0123456789'' ! (d mod 10)]"
proof (cases "d < 10")
  case True
  then show ?thesis
    by (simp add: padStart2_def String_nat.simps [of d])
next
  case False
  then have "d div 10 < 10" using assms by simp
  then show ?thesis using False
    by (simp add: padStart2_def String_nat.simps [of d] String_nat.simps [of "d div 10"])
qed

lemma dateKey_inj:
  assumes "d < 100" "t < 100"
  shows "(dateKey y m d = dateKey y m t) = (d = t)"
proof -
  have "(dateKey y m d = dateKey y m t)
          = (padStart2 (String_nat d) = padStart2 (String_nat t))"
    by (simp add: dateKey_def)
  also have "\<dots> = (d div 10 = t div 10 \<and> d mod 10 = t mod 10)"
    using assms by (simp add: padStart2_String_nat digit_inj)
  also have "\<dots> = (d = t)"
    by (metis div_mult_mod_eq)
  finally show ?thesis .
qed

lemma cellStyle_coherent:
  assumes "now_iso clock = dateKey (now_year clock) (now_month clock) t" "t < 100" "d < 100"
  shows "cellStyle clock D d =
           (if dateKey (now_year clock) (now_month clock) d \<in> D then CellDone
            else if d = t then CellToday else CellPlain)"
  using assms by (simp add: cellStyle_def dateKey_inj)

text \<open>
  The cells of every calendar that is emitted, for any reading of the clock: as many
  blanks as the weekday (Sunday is 0) of the first day of the clock's month, then one
  cell for each day 1..N of that month, tagged done when its date key is in the done-set,
  else today when the key is the clock's date, else plain. When the clock's date is day
  \<open>t\<close> of the month shown, today is the cell of day \<open>t\<close> and no other.
\<close>

lemma calendar_cells:
  "(renderCheckinCalendar clock entries = Some cal \<longrightarrow>
      calendarCells cal =
        replicate (getDay_firstOfMonth (now_year clock) (now_month clock)) Blank
        @ map (\<lambda>d. Day d (cellStyle clock (doneSet entries) d))
              [1..<Suc (getDate_lastOfMonth (now_year clock) (now_month clock))])
   \<and> ((renderCheckinCalendar clock entries \<noteq> None) = (doneSet entries \<noteq> {}))
   \<and> (dateKey (now_year clock) (now_month clock) d \<in> doneSet entries \<longrightarrow>
         cellStyle clock (doneSet entries) d = CellDone)
   \<and> (now_iso clock = dateKey (now_year clock) (now_month clock) t \<and> t < 100 \<and> d < 100 \<longrightarrow>
         cellStyle clock (doneSet entries) d =
           (if dateKey (now_year clock) (now_month clock) d \<in> doneSet entries then CellDone
            else if d = t then CellToday else CellPlain))
   \<and> getDay_firstOfMonth (now_year clock) (now_month clock) < 7
   \<and> map_option calendarCells (renderCheckinCalendar scenarioC_clock scenarioC_entries)
       = Some (replicate 6 Blank
               @ map (\<lambda>d. Day d (if d = 1 \<or> d = 15 then CellDone else CellPlain)) [1..<31])"
proof -
  have done_first: "dateKey (now_year clock) (now_month clock) d \<in> doneSet entries \<longrightarrow>
         cellStyle clock (doneSet entries) d = CellDone"
    by (simp add: cellStyle_def)
  have coherent: "now_iso clock = dateKey (now_year clock) (now_month clock) t \<and> t < 100 \<and> d < 100 \<longrightarrow>
         cellStyle clock (doneSet entries) d =
           (if dateKey (now_year clock) (now_month clock) d \<in> doneSet entries then CellDone
            else if d = t then CellToday else CellPlain)"
    using cellStyle_coherent [of clock t d "doneSet entries"] by blast
  show ?thesis
    using calendar_cells_general [of clock entries cal] calendar_emitted_iff [of clock entries]
      getDay_lt_7 scenarioC_cells done_first coherent
    by blast
qed

lemma days31:
  "[1..<32] = [1, 2, 3, 4, 5, 6, 7, 8, 9, 10, 11, 12, 13, 14, 15, 16,
               17, 18, 19, 20, 21, 22, 23, 24, 25, 26, 27, 28, 29, 30, 31 :: nat]"
  by code_simp

lemma july_offsets: "getDay_firstOfMonth 2024 6 = 1 \<and> getDate_lastOfMonth 2024 6 = 31"
  by (simp add: getDay_firstOfMonth_def getDate_lastOfMonth_def Let_def)

lemma july_styles:
  "map (\<lambda>d. Day d (cellStyle \<lparr> now_year = 2024, now_month = 6, now_iso = ''2024-06-30'' \<rparr>
                      (doneSet scenarioC_entries) d)) [1..<32]
     = map (\<lambda>d. Day d CellPlain) [1..<32]"
  unfolding days31
  by (simp add: cellStyle_def dateKey_def padStart2_def String_nat.simps doneSet_def
      scenarioC_entries_def)

lemma june14_styles:
  "map (\<lambda>d. Day d (cellStyle \<lparr> now_year = 2024, now_month = 5, now_iso = ''2024-06-14'' \<rparr>
                      (doneSet scenarioC_entries) d)) [1..<31]
     = map (\<lambda>d. Day d (if d = 1 \<or> d = 15 then CellDone
                         else if d = 14 then CellToday else CellPlain)) [1..<31]"
  unfolding days30
  by (simp add: cellStyle_def dateKey_def padStart2_def String_nat.simps doneSet_def
      scenarioC_entries_def)

text \<open>
  C6. The claim has one reference date: the grid is that date's month, and the cell of
  that date is tagged today unless it is done. The function takes the month of the grid
  from the local clock and the date of today from the clock in UTC, and these can be two
  different days. In a zone nine hours ahead of UTC, at 01:00 on 1 July 2024, the local
  month is July and the UTC date is 2024-06-30: the grid is July's, one blank and the
  days 1..31, and no cell is tagged today. In the same zone at 08:00 on 15 June 2024,
  with the done dates 2024-06-01 and 2024-06-15 of the claim's example, the UTC date is
  2024-06-14: the days 1 and 15 are done and day 14 is tagged today, where the claim has
  every other day plain.
\<close>

theorem calendar_today_follows_utc_date:
  "map_option calendarCells
     (renderCheckinCalendar \<lparr> now_year = 2024, now_month = 6, now_iso = ''2024-06-30'' \<rparr>
        scenarioC_entries)
     = Some (Blank # map (\<lambda>d. Day d CellPlain) [1..<32])
   \<and> map_option calendarCells
     (renderCheckinCalendar \<lparr> now_year = 2024, now_month = 5, now_iso = ''2024-06-14'' \<rparr>
        scenarioC_entries)
     = Some (replicate 6 Blank
             @ map (\<lambda>d. Day d (if d = 1 \<or> d = 15 then CellDone
                                 else if d = 14 then CellToday else CellPlain)) [1..<31])"
proof -
  let ?july = "\<lparr> now_year = 2024, now_month = 6, now_iso = ''2024-06-30'' \<rparr>"
  let ?june = "\<lparr> now_year = 2024, now_month = 5, now_iso = ''2024-06-14'' \<rparr>"
  have d: "doneSet scenarioC_entries \<noteq> {}"
    by (simp add: doneSet_def scenarioC_entries_def)
  obtain c1 where c1: "renderCheckinCalendar ?july scenarioC_entries = Some c1"
    using calendar_emitted_iff [of ?july scenarioC_entries] d by blast
  obtain c2 where c2: "renderCheckinCalendar ?june scenarioC_entries = Some c2"
    using calendar_emitted_iff [of ?june scenarioC_entries] d by blast
  have "calendarCells c1 = replicate 1 Blank
          @ map (\<lambda>d. Day d (cellStyle ?july (doneSet scenarioC_entries) d)) [1..<32]"
    using calendar_cells_general [OF c1] july_offsets by simp
  then have r1: "calendarCells c1 = Blank # map (\<lambda>d. Day d CellPlain) [1..<32]"
    unfolding july_styles by simp
  have "calendarCells c2 = replicate 6 Blank
          @ map (\<lambda>d. Day d (cellStyle ?june (doneSet scenarioC_entries) d)) [1..<31]"
    using calendar_cells_general [OF c2] scenC_offsets by simp
  then have r2: "calendarCells c2 = replicate 6 Blank
             @ map (\<lambda>d. Day d (if d = 1 \<or> d = 15 then CellDone
                                 else if d = 14 then CellToday else CellPlain)) [1..<31]"
    unfolding june14_styles by simp
  show ?thesis using c1 c2 r1 r2 by simp
qed

section \<open>Empty input\<close>

lemma getDashboardData_goals_failed:
  "getDashboardData getTime \<lparr> data = d, error = Some msg \<rparr> fetchEntries
     = \<lparr> goals = [], latestEntriesByGoal = Map.empty, entriesByGoal = Map.empty \<rparr>"
  by (simp add: getDashboardData_def)

lemma getDashboardData_no_goals:
  "d = None \<or> d = Some [] \<Longrightarrow>
   getDashboardData getTime \<lparr> data = d, error = e \<rparr> fetchEntries
     = \<lparr> goals = [], latestEntriesByGoal = Map.empty, entriesByGoal = Map.empty \<rparr>"
  by (auto simp: getDashboardData_def)

lemma getDashboardData_entries_failed:
  "error (fetchEntries (map gid gs)) \<noteq> None \<Longrightarrow>
   getDashboardData getTime \<lparr> data = Some gs, error = None \<rparr> fetchEntries
     = \<lparr> goals = gs, latestEntriesByGoal = Map.empty, entriesByGoal = Map.empty \<rparr>"
  by (simp add: getDashboardData_def Let_def)

lemma getDashboardData_no_entries:
  "data (fetchEntries (map gid gs)) = None \<or> data (fetchEntries (map gid gs)) = Some [] \<Longrightarrow>
   getDashboardData getTime \<lparr> data = Some gs, error = None \<rparr> fetchEntries
     = \<lparr> goals = gs, latestEntriesByGoal = Map.empty, entriesByGoal = Map.empty \<rparr>"
  by (auto simp: getDashboardData_def Let_def latestByGoal_def groupEntriesByGoal_def sort_js_def)

lemma DashboardPage_no_goals:
  "getDashboardData getTime goalsResult fetchEntries
     = \<lparr> goals = [], latestEntriesByGoal = Map.empty, entriesByGoal = Map.empty \<rparr> \<Longrightarrow>
   DashboardPage getTime fmt clock goalsResult fetchEntries
     = \<lparr> emptyState = True, pinned = [], other = [] \<rparr>"
  by (simp add: DashboardPage_def Let_def)

lemma renderGoalCard_no_entries:
  "renderGoalCard fmt clock
     \<lparr> goals = gs, latestEntriesByGoal = Map.empty, entriesByGoal = Map.empty \<rparr> goal isPinned
     = \<lparr> card_goal = goal, latestSummary = ''No entries yet'',
         card_calendar = None, card_chart = None \<rparr>"
  by (simp add: renderGoalCard_def Let_def formatLatestSummary_def renderCheckinCalendar_def
      renderNumericChart_def numericEntries_def)

text \<open>
  C8. Empty input gives empty or absent output at every stage. No goals (an empty or a
  null result) gives the view \<open>{pinned: [], other: []}\<close>, and so does a failed read of the
  goals. A failed, null or empty read of the entries leaves both entry maps empty, and
  every card then says "No entries yet" and carries no calendar and no chart. The
  calendar is absent for no entries and for an empty done-set; both charts are absent
  when no entry has a value; the history of no entries is the "No entries yet" state.
\<close>

theorem empty_input_gives_empty_output:
  "DashboardPage getTime fmt clock \<lparr> data = Some [], error = None \<rparr> fetchEntries
     = \<lparr> emptyState = True, pinned = [], other = [] \<rparr>
   \<and> DashboardPage getTime fmt clock \<lparr> data = None, error = None \<rparr> fetchEntries
     = \<lparr> emptyState = True, pinned = [], other = [] \<rparr>
   \<and> DashboardPage getTime fmt clock \<lparr> data = d, error = Some msg \<rparr> fetchEntries
     = \<lparr> emptyState = True, pinned = [], other = [] \<rparr>
   \<and> (error (fetchEntries (map gid gs)) \<noteq> None
        \<or> data (fetchEntries (map gid gs)) = None
        \<or> data (fetchEntries (map gid gs)) = Some [] \<longrightarrow>
       getDashboardData getTime \<lparr> data = Some gs, error = None \<rparr> fetchEntries
         = \<lparr> goals = gs, latestEntriesByGoal = Map.empty, entriesByGoal = Map.empty \<rparr>)
   \<and> renderGoalCard fmt clock
         \<lparr> goals = gs, latestEntriesByGoal = Map.empty, entriesByGoal = Map.empty \<rparr> goal isPinned
       = \<lparr> card_goal = goal, latestSummary = ''No entries yet'',
           card_calendar = None, card_chart = None \<rparr>
   \<and> renderCheckinCalendar clock [] = None
   \<and> (doneSet entries = {} \<longrightarrow> renderCheckinCalendar clock entries = None)
   \<and> renderNumericChart [] u targetValue = None
   \<and> (numericEntries entries = [] \<longrightarrow> renderNumericChart entries u targetValue = None)
   \<and> (numericEntries entries = [] \<longrightarrow> detail_renderNumericChart entries u = None)
   \<and> detail_History getTime [] = NoEntriesYet"
proof -
  have a: "DashboardPage getTime fmt clock \<lparr> data = Some [], error = None \<rparr> fetchEntries
     = \<lparr> emptyState = True, pinned = [], other = [] \<rparr>"
    by (rule DashboardPage_no_goals) (simp add: getDashboardData_no_goals)
  have b: "DashboardPage getTime fmt clock \<lparr> data = None, error = None \<rparr> fetchEntries
     = \<lparr> emptyState = True, pinned = [], other = [] \<rparr>"
    by (rule DashboardPage_no_goals) (simp add: getDashboardData_no_goals)
  have c: "DashboardPage getTime fmt clock \<lparr> data = d, error = Some msg \<rparr> fetchEntries
     = \<lparr> emptyState = True, pinned = [], other = [] \<rparr>"
    by (rule DashboardPage_no_goals) (simp add: getDashboardData_goals_failed)
  have e: "error (fetchEntries (map gid gs)) \<noteq> None
        \<or> data (fetchEntries (map gid gs)) = None
        \<or> data (fetchEntries (map gid gs)) = Some [] \<longrightarrow>
       getDashboardData getTime \<lparr> data = Some gs, error = None \<rparr> fetchEntries
         = \<lparr> goals = gs, latestEntriesByGoal = Map.empty, entriesByGoal = Map.empty \<rparr>"
    using getDashboardData_entries_failed [of fetchEntries gs getTime]
      getDashboardData_no_entries [of fetchEntries gs getTime] by blast
  have f: "renderCheckinCalendar clock [] = None"
    by (simp add: renderCheckinCalendar_def)
  have g: "doneSet entries = {} \<longrightarrow> renderCheckinCalendar clock entries = None"
    by (simp add: renderCheckinCalendar_def Let_def collectDoneDates_eq)
  have h: "renderNumericChart [] u targetValue = None"
    by (simp add: renderNumericChart_def numericEntries_def)
  have i: "numericEntries entries = [] \<longrightarrow> renderNumericChart entries u targetValue = None"
    by (simp add: renderNumericChart_def)
  have j: "numericEntries entries = [] \<longrightarrow> detail_renderNumericChart entries u = None"
    by (simp add: detail_renderNumericChart_def)
  have k: "detail_History getTime [] = NoEntriesYet"
    by (simp add: detail_History_def)
  show ?thesis
    using a b c e f g h i j k renderGoalCard_no_entries [of fmt clock gs goal isPinned]
    by blast
qed

theorem empty_input_gives_empty_output_witness:
  "error ((\<lambda>ids. \<lparr> data = None, error = Some ''unavailable'' \<rparr>) (map gid [scenarioB_goal])) \<noteq> None
   \<and> getDashboardData scenario_getTime \<lparr> data = Some [scenarioB_goal], error = None \<rparr>
         (\<lambda>ids. \<lparr> data = None, error = Some ''unavailable'' \<rparr>)
       = \<lparr> goals = [scenarioB_goal], latestEntriesByGoal = Map.empty, entriesByGoal = Map.empty \<rparr>
   \<and> doneSet scenarioB_entries = {}
   \<and> renderCheckinCalendar scenarioC_clock scenarioB_entries = None
   \<and> numericEntries scenarioC_entries = []
   \<and> renderNumericChart scenarioC_entries None (Some (Fin 68)) = None"
proof -
  have h1: "error ((\<lambda>ids. \<lparr> data = None, error = Some ''unavailable'' \<rparr>) (map gid [scenarioB_goal]))
              \<noteq> None"
    by simp
  have h2: "doneSet scenarioB_entries = {}"
    by (simp add: doneSet_def scenarioB_entries_def)
  have h3: "numericEntries scenarioC_entries = []"
    by (simp add: numericEntries_def scenarioC_entries_def)
  show ?thesis
    using h1 h2 h3
      empty_input_gives_empty_output [where fetchEntries = "\<lambda>ids. \<lparr> data = None, error = Some ''unavailable'' \<rparr>"
        and gs = "[scenarioB_goal]" and getTime = scenario_getTime and entries = scenarioB_entries
        and clock = scenarioC_clock]
      empty_input_gives_empty_output [where entries = scenarioC_entries and u = None
        and targetValue = "Some (Fin 68)"]
    by simp
qed

section \<open>The two sorts\<close>

lemma detail_compareEntries_eq: "detail_compareEntries getTime = compareEntries getTime"
  by (intro ext) (simp add: detail_compareEntries_def compareEntries_def)

lemma isFinite_fin: "isFinite a \<Longrightarrow> a = Fin (fin a)"
  by (cases a) simp_all

lemma datesParse_subset:
  "datesParse T es \<Longrightarrow> set xs \<subseteq> set es \<Longrightarrow> datesParse T xs"
  unfolding datesParse_def by blast

lemma compare_by_key:
  assumes "datesParse T es" "a \<in> set es" "b \<in> set es"
  shows "ngt (compareEntries T a b) (Fin 0) = (\<not> recentFirstKey T a \<le> recentFirstKey T b)"
proof -
  have fa: "T (entry_date a) = Fin (fin (T (entry_date a)))"
       "T (created_at a) = Fin (fin (T (created_at a)))"
    using assms(1,2) by (simp_all add: datesParse_def isFinite_fin)
  have fb: "T (entry_date b) = Fin (fin (T (entry_date b)))"
       "T (created_at b) = Fin (fin (T (created_at b)))"
    using assms(1,3) by (simp_all add: datesParse_def isFinite_fin)
  have inj: "T (entry_date a) = T (entry_date b) \<longrightarrow> entry_date a = entry_date b"
    using assms by (simp add: datesParse_def)
  show ?thesis
  proof (cases "entry_date a = entry_date b")
    case True
    have "ngt (compareEntries T a b) (Fin 0)
            = (fin (T (created_at a)) < fin (T (created_at b)))"
      using True by (simp add: compareEntries_def ngt_def nsub_def, subst fa(2), subst fb(2)) simp
    then show ?thesis using True by (auto simp: recentFirstKey_def)
  next
    case False
    then have ne: "fin (T (entry_date a)) \<noteq> fin (T (entry_date b))"
      using inj fa(1) fb(1) by auto
    have "ngt (compareEntries T a b) (Fin 0)
            = (fin (T (entry_date a)) < fin (T (entry_date b)))"
      using False by (simp add: compareEntries_def ngt_def nsub_def, subst fa(1), subst fb(1)) simp
    then show ?thesis using ne by (auto simp: recentFirstKey_def)
  qed
qed

lemma insertSorted_insort_key:
  assumes "datesParse T es" "x \<in> set es" "set ys \<subseteq> set es"
  shows "insertSorted (compareEntries T) x ys = insort_key (recentFirstKey T) x ys"
  using assms(3)
proof (induction ys)
  case Nil
  then show ?case by simp
next
  case (Cons y ys)
  have "ngt (compareEntries T x y) (Fin 0) = (\<not> recentFirstKey T x \<le> recentFirstKey T y)"
    using compare_by_key [OF assms(1,2)] Cons.prems by simp
  then show ?case using Cons by simp
qed

lemma sort_js_sort_key:
  assumes "datesParse T es"
  shows "set xs \<subseteq> set es \<Longrightarrow> sort_js (compareEntries T) xs = sort_key (recentFirstKey T) xs"
proof (induction xs)
  case Nil
  then show ?case by (simp add: sort_js_def)
next
  case (Cons x xs)
  have ih: "sort_js (compareEntries T) xs = sort_key (recentFirstKey T) xs"
    using Cons by simp
  have "sort_js (compareEntries T) (x # xs) = insertSorted (compareEntries T) x (sort_js (compareEntries T) xs)"
    by (simp add: sort_js_def)
  also have "\<dots> = insertSorted (compareEntries T) x (sort_key (recentFirstKey T) xs)"
    using ih by simp
  also have "\<dots> = insort_key (recentFirstKey T) x (sort_key (recentFirstKey T) xs)"
    using insertSorted_insort_key [OF assms, of x "sort_key (recentFirstKey T) xs"] Cons.prems
    by simp
  finally show ?case by simp
qed

lemma setIfAbsent_lookup:
  "setIfAbsent x m g =
     (case m g of Some e \<Rightarrow> Some e | None \<Rightarrow> if goal_id x = g then Some x else None)"
  by (auto simp: setIfAbsent_def split: option.splits)

lemma fold_setIfAbsent:
  "fold setIfAbsent xs m g =
     (case m g of
        Some e \<Rightarrow> Some e
      | None \<Rightarrow> (case filter (\<lambda>e. goal_id e = g) xs of [] \<Rightarrow> None | e # _ \<Rightarrow> Some e))"
proof (induction xs arbitrary: m)
  case Nil
  then show ?case by (simp split: option.splits)
next
  case (Cons x xs)
  have "fold setIfAbsent (x # xs) m g = fold setIfAbsent xs (setIfAbsent x m) g"
    by simp
  also have "\<dots> = (case setIfAbsent x m g of
        Some e \<Rightarrow> Some e
      | None \<Rightarrow> (case filter (\<lambda>e. goal_id e = g) xs of [] \<Rightarrow> None | e # _ \<Rightarrow> Some e))"
    by (rule Cons.IH)
  also have "\<dots> = (case m g of
        Some e \<Rightarrow> Some e
      | None \<Rightarrow> (case filter (\<lambda>e. goal_id e = g) (x # xs) of [] \<Rightarrow> None | e # _ \<Rightarrow> Some e))"
    by (simp add: setIfAbsent_lookup split: option.splits)
  finally show ?case .
qed

lemma latestByGoal_filter:
  "latestByGoal T es g =
     (case filter (\<lambda>e. goal_id e = g) (sort_js (compareEntries T) es) of
        [] \<Rightarrow> None | e # _ \<Rightarrow> Some e)"
  by (simp add: latestByGoal_def fold_setIfAbsent)

lemma sort_js_filter:
  assumes "datesParse T es"
  shows "filter P (sort_js (compareEntries T) es) = sort_js (compareEntries T) (filter P es)"
proof -
  have "filter P (sort_js (compareEntries T) es) = filter P (sort_key (recentFirstKey T) es)"
    using sort_js_sort_key [OF assms, of es] by simp
  also have "\<dots> = sort_key (recentFirstKey T) (filter P es)"
    by (rule filter_sort)
  also have "\<dots> = sort_js (compareEntries T) (filter P es)"
    using sort_js_sort_key [OF assms, of "filter P es"] by simp
  finally show ?thesis .
qed

lemma key_le_earlierOrSame:
  assumes "datesParse T es" "a \<in> set es" "b \<in> set es"
  shows "(recentFirstKey T b \<le> recentFirstKey T a) = earlierOrSame T a b"
proof -
  have fa: "T (entry_date a) = Fin (fin (T (entry_date a)))"
       "T (created_at a) = Fin (fin (T (created_at a)))"
    using assms(1,2) by (simp_all add: datesParse_def isFinite_fin)
  have fb: "T (entry_date b) = Fin (fin (T (entry_date b)))"
       "T (created_at b) = Fin (fin (T (created_at b)))"
    using assms(1,3) by (simp_all add: datesParse_def isFinite_fin)
  have inj: "T (entry_date a) = T (entry_date b) \<longrightarrow> entry_date a = entry_date b"
    using assms by (simp add: datesParse_def)
  have e: "earlierOrSame T a b =
      (fin (T (entry_date a)) < fin (T (entry_date b))
       \<or> (entry_date a = entry_date b \<and> fin (T (created_at a)) \<le> fin (T (created_at b))))"
    unfolding earlierOrSame_def nle_def
    by (subst fa(1), subst fb(1), subst fa(2), subst fb(2), subst fa(2), subst fb(2), subst fa(2))
       auto
  show ?thesis
    unfolding e using inj fa(1) fb(1) by (auto simp: recentFirstKey_def)
qed

lemma sorted_key_rev_chronological:
  assumes "datesParse T es"
  shows "set xs \<subseteq> set es \<Longrightarrow> chronological T xs \<Longrightarrow> sorted (map (recentFirstKey T) (rev xs))"
proof -
  assume sub: "set xs \<subseteq> set es" and chr: "chronological T xs"
  have "sorted_wrt (\<lambda>a b. recentFirstKey T b \<le> recentFirstKey T a) xs"
    using chr sub unfolding chronological_def
    by (rule_tac sorted_wrt_mono_rel [where P = "earlierOrSame T"])
       (use key_le_earlierOrSame [OF assms] in auto)
  then have "sorted_wrt (\<lambda>a b. recentFirstKey T a \<le> recentFirstKey T b) (rev xs)"
    by (simp add: sorted_wrt_rev)
  then show ?thesis by (simp add: sorted_map)
qed

lemma scenario_times:
  "scenario_getTime ''2024-06-01'' = Fin 1717200000000
   \<and> scenario_getTime ''2024-06-02'' = Fin 1717286400000
   \<and> scenario_getTime ''2024-06-03'' = Fin 1717372800000
   \<and> scenario_getTime ''2024-06-01T08:00:00Z'' = Fin 1717228800000
   \<and> scenario_getTime ''2024-06-01T09:00:00Z'' = Fin 1717232400000
   \<and> scenario_getTime ''2024-06-02T08:00:00Z'' = Fin 1717315200000
   \<and> scenario_getTime ''2024-06-03T08:00:00Z'' = Fin 1717401600000"
  by (simp add: scenario_getTime_def)

lemma scenarioA_history:
  "sort_js (compareEntries scenario_getTime) [scenarioA_first, scenarioA_second]
     = [scenarioA_second, scenarioA_first]
   \<and> sort_js (compareEntries scenario_getTime) [scenarioA_second, scenarioA_first]
     = [scenarioA_second, scenarioA_first]"
  by (simp add: sort_js_def compareEntries_def scenarioA_first_def scenarioA_second_def
      scenario_times nsub_def ngt_def)

lemma scenario_datesParse:
  "datesParse scenario_getTime (scenarioB_entries @ [scenarioA_first, scenarioA_second])"
  by (simp add: datesParse_def scenarioB_entries_def scenarioA_first_def scenarioA_second_def
      scenario_times)

lemma scenarioB_chronological:
  "chronological scenario_getTime scenarioB_entries \<and> distinct (map entry_date scenarioB_entries)"
  by (simp add: chronological_def earlierOrSame_def scenarioB_entries_def scenario_times)

text \<open>
  C1. When every date parses, the entry the dashboard selects as latest for a goal is the
  first element of the History list of that goal's entries, and no entry of the goal is
  more recent than it (later date, or same date and later insertion). For a goal with no
  entry there is no latest entry, the card says "No entries yet" and the History shows
  its "No entries yet" state.
\<close>

theorem latest_is_head_of_history:
  assumes dp: "datesParse T es"
  shows "(filter (\<lambda>e. goal_id e = g) es \<noteq> [] \<longrightarrow>
           (\<exists>h rest. detail_History T (filter (\<lambda>e. goal_id e = g) es) = HistoryItems (h # rest)
                \<and> latestByGoal T es g = Some h
                \<and> (\<forall>e\<in>set (filter (\<lambda>e. goal_id e = g) es). earlierOrSame T e h)))
       \<and> (filter (\<lambda>e. goal_id e = g) es = [] \<longrightarrow>
            latestByGoal T es g = None
          \<and> formatLatestSummary fmt tt (latestByGoal T es g) u = ''No entries yet''
          \<and> detail_History T (filter (\<lambda>e. goal_id e = g) es) = NoEntriesYet)"
proof -
  let ?xs = "filter (\<lambda>e. goal_id e = g) es"
  let ?ss = "sort_js (compareEntries T) ?xs"
  have latest: "latestByGoal T es g = (case ?ss of [] \<Rightarrow> None | e # _ \<Rightarrow> Some e)"
    by (simp add: latestByGoal_filter sort_js_filter [OF dp])
  have key: "?ss = sort_key (recentFirstKey T) ?xs"
    using sort_js_sort_key [OF dp, of ?xs] by simp
  have empty: "?xs = [] \<longrightarrow>
            latestByGoal T es g = None
          \<and> formatLatestSummary fmt tt (latestByGoal T es g) u = ''No entries yet''
          \<and> detail_History T ?xs = NoEntriesYet"
    using latest by (simp add: sort_js_def formatLatestSummary_def detail_History_def)
  have nonempty: "\<exists>h rest. detail_History T ?xs = HistoryItems (h # rest)
                \<and> latestByGoal T es g = Some h
                \<and> (\<forall>e\<in>set ?xs. earlierOrSame T e h)" if ne: "?xs \<noteq> []"
  proof -
    have "length ?ss = length ?xs" using key by simp
    then obtain h rest where hr: "?ss = h # rest"
      using ne by (cases ?ss) auto
    have hist: "detail_History T ?xs = HistoryItems (h # rest)"
      using ne hr by (simp add: detail_History_def detail_compareEntries_eq)
    have lat: "latestByGoal T es g = Some h"
      using latest hr by simp
    have set_eq: "set (h # rest) = set ?xs"
      using hr key by (metis set_sort)
    have srt: "sorted (map (recentFirstKey T) (h # rest))"
      using hr key by (metis sorted_sort_key)
    have top: "\<forall>e\<in>set ?xs. recentFirstKey T h \<le> recentFirstKey T e"
      using srt set_eq by auto
    have hin: "h \<in> set es" using set_eq by auto
    have "\<forall>e\<in>set ?xs. earlierOrSame T e h"
    proof
      fix e assume e: "e \<in> set ?xs"
      then have "e \<in> set es" by simp
      then show "earlierOrSame T e h"
        using key_le_earlierOrSame [OF dp _ hin, of e] top e by blast
    qed
    then show ?thesis using hist lat by blast
  qed
  show ?thesis using empty nonempty by blast
qed

theorem latest_is_head_of_history_witness:
  "datesParse scenario_getTime (scenarioB_entries @ [scenarioA_first, scenarioA_second])
   \<and> latestByGoal scenario_getTime (scenarioB_entries @ [scenarioA_first, scenarioA_second]) ''g0''
       = Some scenarioA_second
   \<and> detail_History scenario_getTime [scenarioA_first, scenarioA_second]
       = HistoryItems [scenarioA_second, scenarioA_first]
   \<and> latestByGoal scenario_getTime (scenarioB_entries @ [scenarioA_first, scenarioA_second]) ''g9''
       = None"
proof -
  let ?es = "scenarioB_entries @ [scenarioA_first, scenarioA_second]"
  have f0: "filter (\<lambda>e. goal_id e = ''g0'') ?es = [scenarioA_first, scenarioA_second]"
    by (simp add: scenarioB_entries_def scenarioA_first_def scenarioA_second_def)
  have f9: "filter (\<lambda>e. goal_id e = ''g9'') ?es = []"
    by (simp add: scenarioB_entries_def scenarioA_first_def scenarioA_second_def)
  have hist: "detail_History scenario_getTime [scenarioA_first, scenarioA_second]
       = HistoryItems [scenarioA_second, scenarioA_first]"
    by (simp add: detail_History_def detail_compareEntries_eq scenarioA_history)
  have "\<exists>h rest. detail_History scenario_getTime [scenarioA_first, scenarioA_second]
                    = HistoryItems (h # rest)
                \<and> latestByGoal scenario_getTime ?es ''g0'' = Some h"
    using latest_is_head_of_history [OF scenario_datesParse, of "''g0''"]
    unfolding f0 by blast
  then have l0: "latestByGoal scenario_getTime ?es ''g0'' = Some scenarioA_second"
    unfolding hist by auto
  have l9: "latestByGoal scenario_getTime ?es ''g9'' = None"
    using latest_is_head_of_history [OF scenario_datesParse, of "''g9''"]
    unfolding f9 by blast
  show ?thesis using scenario_datesParse l0 l9 hist by simp
qed

lemma history_of_permutation:
  assumes dp: "datesParse T es" and chr: "chronological T es"
    and dist: "distinct (map entry_date es)" and perm: "mset xs = mset es"
  shows "sort_js (compareEntries T) xs = rev es"
proof -
  have sets: "set xs = set es" using perm by (rule mset_eq_setD)
  have inj: "inj_on (recentFirstKey T) (set xs)"
    unfolding sets
  proof (rule inj_onI)
    fix a b assume a: "a \<in> set es" and b: "b \<in> set es"
      and k: "recentFirstKey T a = recentFirstKey T b"
    have "T (entry_date a) = Fin (fin (T (entry_date a)))"
      "T (entry_date b) = Fin (fin (T (entry_date b)))"
      using dp a b by (simp_all add: datesParse_def isFinite_fin)
    then have "T (entry_date a) = T (entry_date b)"
      using k by (simp add: recentFirstKey_def)
    then have "entry_date a = entry_date b"
      using dp a b by (simp add: datesParse_def)
    then show "a = b"
      using dist a b by (meson distinct_map inj_onD)
  qed
  have srt: "sorted (map (recentFirstKey T) (rev es))"
    using sorted_key_rev_chronological [OF dp _ chr] by simp
  have "sort_key (recentFirstKey T) xs = rev es"
    by (rule sort_key_inj_key_eq [OF _ inj srt]) (simp add: perm)
  then show ?thesis using sort_js_sort_key [OF dp, of xs] sets by simp
qed

section \<open>From the entries query to the chart\<close>

lemma pushEntry_lookup:
  "pushEntry x m g =
     (if goal_id x = g then Some ((case m g of None \<Rightarrow> [] | Some arr \<Rightarrow> arr) @ [x]) else m g)"
  by (simp add: pushEntry_def)

lemma fold_pushEntry:
  "fold pushEntry es m g =
     (if filter (\<lambda>e. goal_id e = g) es = [] then m g
      else Some ((case m g of None \<Rightarrow> [] | Some arr \<Rightarrow> arr) @ filter (\<lambda>e. goal_id e = g) es))"
proof (induction es arbitrary: m)
  case Nil
  then show ?case by simp
next
  case (Cons x xs)
  have "fold pushEntry (x # xs) m g = fold pushEntry xs (pushEntry x m) g"
    by simp
  also have "\<dots> = (if filter (\<lambda>e. goal_id e = g) xs = [] then pushEntry x m g
      else Some ((case pushEntry x m g of None \<Rightarrow> [] | Some arr \<Rightarrow> arr)
                 @ filter (\<lambda>e. goal_id e = g) xs))"
    by (rule Cons.IH)
  also have "\<dots> = (if filter (\<lambda>e. goal_id e = g) (x # xs) = [] then m g
      else Some ((case m g of None \<Rightarrow> [] | Some arr \<Rightarrow> arr)
                 @ filter (\<lambda>e. goal_id e = g) (x # xs)))"
    by (simp add: pushEntry_lookup)
  finally show ?case .
qed

lemma groupEntriesByGoal_lookup:
  "groupEntriesByGoal es g =
     (if filter (\<lambda>e. goal_id e = g) es = [] then None
      else Some (filter (\<lambda>e. goal_id e = g) es))"
  by (simp add: groupEntriesByGoal_def fold_pushEntry)

lemma getDashboardData_selected:
  "gs \<noteq> [] \<Longrightarrow>
   getDashboardData T \<lparr> data = Some gs, error = None \<rparr> (selectEntries T rows)
     = \<lparr> goals = gs,
         latestEntriesByGoal =
           latestByGoal T (sort_key (chronologicalKey T)
                             (filter (\<lambda>e. goal_id e \<in> set (map gid gs)) rows)),
         entriesByGoal =
           groupEntriesByGoal (sort_key (chronologicalKey T)
                                 (filter (\<lambda>e. goal_id e \<in> set (map gid gs)) rows)) \<rparr>"
  by (simp add: getDashboardData_def selectEntries_def Let_def)

lemma cardEntries_selected:
  assumes "goal \<in> set gs"
  shows "cardEntries (getDashboardData T \<lparr> data = Some gs, error = None \<rparr> (selectEntries T rows)) goal
           = sort_key (chronologicalKey T) (filter (\<lambda>e. goal_id e = gid goal) rows)"
proof -
  have ne: "gs \<noteq> []" using assms by auto
  let ?q = "sort_key (chronologicalKey T) (filter (\<lambda>e. goal_id e \<in> set (map gid gs)) rows)"
  have "filter (\<lambda>e. goal_id e = gid goal) ?q
          = sort_key (chronologicalKey T)
              (filter (\<lambda>e. goal_id e = gid goal) (filter (\<lambda>e. goal_id e \<in> set (map gid gs)) rows))"
    by (rule filter_sort)
  also have "filter (\<lambda>e. goal_id e = gid goal) (filter (\<lambda>e. goal_id e \<in> set (map gid gs)) rows)
          = filter (\<lambda>e. goal_id e = gid goal) rows"
    using assms by (auto intro: filter_cong)
  finally have f: "filter (\<lambda>e. goal_id e = gid goal) ?q
          = sort_key (chronologicalKey T) (filter (\<lambda>e. goal_id e = gid goal) rows)" .
  have "cardEntries (getDashboardData T \<lparr> data = Some gs, error = None \<rparr> (selectEntries T rows)) goal
          = (case groupEntriesByGoal ?q (gid goal) of None \<Rightarrow> [] | Some es \<Rightarrow> es)"
    unfolding cardEntries_def getDashboardData_selected [OF ne] by simp
  also have "\<dots> = filter (\<lambda>e. goal_id e = gid goal) ?q"
    unfolding groupEntriesByGoal_lookup by simp
  finally show ?thesis unfolding f .
qed

lemma card_chart_selected:
  "tracker_type goal = Some numeric \<Longrightarrow>
   card_chart (renderGoalCard fmt clock dd goal True)
     = renderNumericChart (cardEntries dd goal) (unit goal) (target_value goal)"
  by (simp add: renderGoalCard_def cardEntries_def Let_def)

lemma chronologicalKey_le:
  "(chronologicalKey T a \<le> chronologicalKey T b) = (recentFirstKey T b \<le> recentFirstKey T a)"
  by (auto simp: chronologicalKey_def recentFirstKey_def)

lemma chronological_sort_key:
  assumes dp: "datesParse T rows" and sub: "set xs \<subseteq> set rows"
  shows "chronological T (sort_key (chronologicalKey T) xs)"
proof -
  let ?ys = "sort_key (chronologicalKey T) xs"
  have "sorted (map (chronologicalKey T) ?ys)" by (rule sorted_sort_key)
  then have "sorted_wrt (\<lambda>a b. chronologicalKey T a \<le> chronologicalKey T b) ?ys"
    by (simp add: sorted_map)
  moreover have "\<And>a b. a \<in> set ?ys \<Longrightarrow> b \<in> set ?ys \<Longrightarrow>
      chronologicalKey T a \<le> chronologicalKey T b \<Longrightarrow> earlierOrSame T a b"
  proof -
    fix a b assume a: "a \<in> set ?ys" and b: "b \<in> set ?ys"
      and le: "chronologicalKey T a \<le> chronologicalKey T b"
    have "a \<in> set rows" "b \<in> set rows" using a b sub by auto
    then show "earlierOrSame T a b"
      using key_le_earlierOrSame [OF dp, of a b] le chronologicalKey_le [of T a b] by simp
  qed
  ultimately have "sorted_wrt (earlierOrSame T) ?ys"
    by (rule sorted_wrt_mono_rel [rotated])
  then show ?thesis by (simp add: chronological_def)
qed

lemma distinct_dates_sort_key:
  "distinct (map entry_date (sort_key k xs)) = distinct (map entry_date xs)"
  by (simp add: distinct_map)

lemma same_day_selected:
  assumes "entry_date a = entry_date b" "goal_id a = gid goal" "goal_id b = gid goal"
    "T (created_at a) = Fin ta" "T (created_at b) = Fin tb" "ta < tb"
  shows "cardEntries (dashboardOfStore T [goal] [b, a]) goal = [a, b]
       \<and> cardEntries (dashboardOfStore T [goal] [a, b]) goal = [a, b]"
proof -
  have k: "\<not> chronologicalKey T b \<le> chronologicalKey T a"
    "chronologicalKey T a \<le> chronologicalKey T b"
    using assms by (simp_all add: chronologicalKey_def)
  have f: "filter (\<lambda>e. goal_id e = gid goal) [b, a] = [b, a]"
    "filter (\<lambda>e. goal_id e = gid goal) [a, b] = [a, b]"
    using assms by simp_all
  have ba: "cardEntries (dashboardOfStore T [goal] [b, a]) goal
              = sort_key (chronologicalKey T) [b, a]"
    unfolding dashboardOfStore_def using cardEntries_selected [of goal "[goal]" T "[b, a]"]
    by (simp only: f) simp
  have ab: "cardEntries (dashboardOfStore T [goal] [a, b]) goal
              = sort_key (chronologicalKey T) [a, b]"
    unfolding dashboardOfStore_def using cardEntries_selected [of goal "[goal]" T "[a, b]"]
    by (simp only: f) simp
  show ?thesis
    unfolding ba ab using k by simp
qed

lemma same_day_history:
  assumes "entry_date a = entry_date b"
    "T (created_at a) = Fin ta" "T (created_at b) = Fin tb" "ta < tb"
  shows "sort_js (detail_compareEntries T) [a, b] = [b, a]
       \<and> sort_js (detail_compareEntries T) [b, a] = [b, a]"
  using assms
  by (simp add: sort_js_def detail_compareEntries_def nsub_def ngt_def)

lemma trend_is_rev_history:
  assumes dp: "datesParse T rows"
    and dist: "distinct (map entry_date (filter (\<lambda>e. goal_id e = gid goal) rows))"
    and mem: "goal \<in> set gs"
    and perm: "mset xs = mset (filter (\<lambda>e. goal_id e = gid goal) rows)"
  shows "sort_js (detail_compareEntries T) xs = rev (cardEntries (dashboardOfStore T gs rows) goal)"
proof -
  let ?own = "filter (\<lambda>e. goal_id e = gid goal) rows"
  let ?trend = "sort_key (chronologicalKey T) ?own"
  have ce: "cardEntries (dashboardOfStore T gs rows) goal = ?trend"
    unfolding dashboardOfStore_def by (rule cardEntries_selected [OF mem])
  have sub: "set ?own \<subseteq> set rows" by auto
  have dpt: "datesParse T ?trend"
    by (rule datesParse_subset [OF dp]) auto
  have chr: "chronological T ?trend"
    by (rule chronological_sort_key [OF dp sub])
  have dt: "distinct (map entry_date ?trend)"
    using dist by (simp add: distinct_dates_sort_key)
  have pm: "mset xs = mset ?trend" using perm by simp
  show ?thesis
    unfolding ce detail_compareEntries_eq
    by (rule history_of_permutation [OF dpt chr dt pm])
qed

lemma scenario_table_own:
  "filter (\<lambda>e. goal_id e = gid scenarioB_goal) scenario_table = rev scenarioB_entries
   \<and> filter (\<lambda>e. goal_id e = gid scenarioA_goal) scenario_table
       = [scenarioA_second, scenarioA_first]"
  by (simp add: scenario_table_def scenarioB_entries_def scenarioA_first_def
      scenarioA_second_def scenarioB_goal_def scenarioA_goal_def)

lemma scenario_table_sorted:
  "sort_key (chronologicalKey scenario_getTime) (rev scenarioB_entries) = scenarioB_entries"
  by (simp add: scenarioB_entries_def chronologicalKey_def scenario_times)

lemma scenario_table_parses: "datesParse scenario_getTime scenario_table"
  by (rule datesParse_subset [OF scenario_datesParse]) (auto simp: scenario_table_def)

text \<open>
  C2. The entries that the dashboard passes to the chart of a goal are the goal's rows as
  the entries query orders them: date ascending, ties by insertion time ascending; the
  chart plots its points in that order. When the dates parse and the dates of the goal's
  entries are pairwise distinct, that list is the exact reverse of the History of the
  goal page, in whatever order the page holds the goal's entries, and the entries with a
  value, as the chart plots them, are the History's in reverse. For two entries of the
  same day the chart receives the earlier created one first and the History shows the
  later created one first.
\<close>

theorem history_reverses_trend_order:
  "(datesParse T rows
      \<and> distinct (map entry_date (filter (\<lambda>e. goal_id e = gid goal) rows))
      \<and> goal \<in> set gs \<longrightarrow>
      cardEntries (dashboardOfStore T gs rows) goal
        = sort_key (chronologicalKey T) (filter (\<lambda>e. goal_id e = gid goal) rows)
    \<and> chronological T (cardEntries (dashboardOfStore T gs rows) goal)
    \<and> (tracker_type goal = Some numeric \<longrightarrow>
         card_chart (renderGoalCard fmt clock (dashboardOfStore T gs rows) goal True)
           = renderNumericChart (cardEntries (dashboardOfStore T gs rows) goal)
               (unit goal) (target_value goal))
    \<and> map snd (points (numericEntries (cardEntries (dashboardOfStore T gs rows) goal)) tv)
        = map (\<lambda>e. y_transform
                      (scaleMin (entryValues (numericEntries
                         (cardEntries (dashboardOfStore T gs rows) goal))) tv)
                      (chart_range (entryValues (numericEntries
                         (cardEntries (dashboardOfStore T gs rows) goal))) tv)
                      (the (entry_value e)))
              (numericEntries (cardEntries (dashboardOfStore T gs rows) goal))
    \<and> (\<forall>xs. mset xs = mset (filter (\<lambda>e. goal_id e = gid goal) rows) \<longrightarrow>
           sort_js (detail_compareEntries T) xs
             = rev (cardEntries (dashboardOfStore T gs rows) goal)
         \<and> numericEntries (cardEntries (dashboardOfStore T gs rows) goal)
             = rev (numericEntries (sort_js (detail_compareEntries T) xs))
         \<and> (xs \<noteq> [] \<longrightarrow>
              detail_History T xs
                = HistoryItems (rev (cardEntries (dashboardOfStore T gs rows) goal)))))
   \<and> (entry_date a = entry_date b \<and> goal_id a = gid goal \<and> goal_id b = gid goal
        \<and> T (created_at a) = Fin ta \<and> T (created_at b) = Fin tb \<and> ta < tb \<longrightarrow>
      cardEntries (dashboardOfStore T [goal] [b, a]) goal = [a, b]
    \<and> cardEntries (dashboardOfStore T [goal] [a, b]) goal = [a, b]
    \<and> sort_js (detail_compareEntries T) [a, b] = [b, a]
    \<and> sort_js (detail_compareEntries T) [b, a] = [b, a])"
proof -
  let ?own = "filter (\<lambda>e. goal_id e = gid goal) rows"
  let ?ce = "cardEntries (dashboardOfStore T gs rows) goal"
  have one: "?ce = sort_key (chronologicalKey T) ?own
    \<and> chronological T ?ce
    \<and> (\<forall>xs. mset xs = mset ?own \<longrightarrow>
           sort_js (detail_compareEntries T) xs = rev ?ce
         \<and> numericEntries ?ce = rev (numericEntries (sort_js (detail_compareEntries T) xs))
         \<and> (xs \<noteq> [] \<longrightarrow> detail_History T xs = HistoryItems (rev ?ce)))"
    if h: "datesParse T rows \<and> distinct (map entry_date ?own) \<and> goal \<in> set gs"
  proof -
    have ce: "?ce = sort_key (chronologicalKey T) ?own"
      unfolding dashboardOfStore_def using h by (simp add: cardEntries_selected)
    have chr: "chronological T ?ce"
      unfolding ce using h by (intro chronological_sort_key [of T rows]) auto
    have hist: "sort_js (detail_compareEntries T) xs = rev ?ce"
      if "mset xs = mset ?own" for xs
      using trend_is_rev_history [of T rows goal gs xs] h that by blast
    have num: "numericEntries ?ce = rev (numericEntries (sort_js (detail_compareEntries T) xs))"
      if "mset xs = mset ?own" for xs
      unfolding hist [OF that] by (simp add: numericEntries_def rev_filter [symmetric])
    have view: "detail_History T xs = HistoryItems (rev ?ce)"
      if "mset xs = mset ?own" "xs \<noteq> []" for xs
      using hist [OF that(1)] that(2) by (simp add: detail_History_def)
    show ?thesis using ce chr hist num view by blast
  qed
  have chart: "tracker_type goal = Some numeric \<longrightarrow>
         card_chart (renderGoalCard fmt clock (dashboardOfStore T gs rows) goal True)
           = renderNumericChart ?ce (unit goal) (target_value goal)"
    using card_chart_selected [of goal fmt clock "dashboardOfStore T gs rows"] by blast
  have two: "cardEntries (dashboardOfStore T [goal] [b, a]) goal = [a, b]
    \<and> cardEntries (dashboardOfStore T [goal] [a, b]) goal = [a, b]
    \<and> sort_js (detail_compareEntries T) [a, b] = [b, a]
    \<and> sort_js (detail_compareEntries T) [b, a] = [b, a]"
    if "entry_date a = entry_date b \<and> goal_id a = gid goal \<and> goal_id b = gid goal
        \<and> T (created_at a) = Fin ta \<and> T (created_at b) = Fin tb \<and> ta < tb"
    using that same_day_selected [of a b goal T ta tb] same_day_history [of a b T ta tb]
    by blast
  show ?thesis
    using one chart two points_y_transform [of "numericEntries ?ce" tv] by blast
qed

theorem history_reverses_trend_order_witness:
  "datesParse scenario_getTime scenario_table
   \<and> distinct (map entry_date (filter (\<lambda>e. goal_id e = gid scenarioB_goal) scenario_table))
   \<and> cardEntries (dashboardOfStore scenario_getTime [scenarioA_goal, scenarioB_goal] scenario_table)
        scenarioB_goal = scenarioB_entries
   \<and> chronological scenario_getTime scenarioB_entries
   \<and> sort_js (detail_compareEntries scenario_getTime) (rev scenarioB_entries)
       = rev scenarioB_entries
   \<and> detail_History scenario_getTime scenarioB_entries = HistoryItems (rev scenarioB_entries)
   \<and> cardEntries (dashboardOfStore scenario_getTime [scenarioA_goal]
         [scenarioA_second, scenarioA_first]) scenarioA_goal
       = [scenarioA_first, scenarioA_second]
   \<and> sort_js (detail_compareEntries scenario_getTime) [scenarioA_first, scenarioA_second]
       = [scenarioA_second, scenarioA_first]"
proof -
  let ?T = scenario_getTime
  have h1: "datesParse ?T scenario_table" by (rule scenario_table_parses)
  have h2: "distinct (map entry_date (filter (\<lambda>e. goal_id e = gid scenarioB_goal) scenario_table))"
    using scenarioB_chronological by (simp add: scenario_table_own distinct_rev rev_map [symmetric])
  have h3: "scenarioB_goal \<in> set [scenarioA_goal, scenarioB_goal]" by simp
  have ne: "scenarioB_entries \<noteq> []" by (simp add: scenarioB_entries_def)
  have p1: "mset (rev scenarioB_entries)
              = mset (filter (\<lambda>e. goal_id e = gid scenarioB_goal) scenario_table)"
    by (simp add: scenario_table_own)
  have p2: "mset scenarioB_entries
              = mset (filter (\<lambda>e. goal_id e = gid scenarioB_goal) scenario_table)"
    by (simp add: scenario_table_own)
  have a: "entry_date scenarioA_first = entry_date scenarioA_second
      \<and> goal_id scenarioA_first = gid scenarioA_goal
      \<and> goal_id scenarioA_second = gid scenarioA_goal
      \<and> ?T (created_at scenarioA_first) = Fin 1717228800000
      \<and> ?T (created_at scenarioA_second) = Fin 1717232400000
      \<and> (1717228800000 :: rat) < 1717232400000"
    by (simp add: scenarioA_first_def scenarioA_second_def scenarioA_goal_def scenario_times)
  note big = history_reverses_trend_order [of ?T scenario_table scenarioB_goal "[scenarioA_goal, scenarioB_goal]"
        undefined undefined None scenarioA_first scenarioA_second
        1717228800000 1717232400000]
  note small = history_reverses_trend_order [of ?T "[]" scenarioA_goal "[]"
        undefined undefined None scenarioA_first scenarioA_second
        1717228800000 1717232400000]
  have ce: "cardEntries (dashboardOfStore ?T [scenarioA_goal, scenarioB_goal] scenario_table)
        scenarioB_goal = scenarioB_entries"
    using big h1 h2 h3 by (simp add: scenario_table_own scenario_table_sorted)
  have chr: "chronological ?T scenarioB_entries"
    using big h1 h2 h3 ce by simp
  have s1: "sort_js (detail_compareEntries ?T) (rev scenarioB_entries) = rev scenarioB_entries"
    using big h1 h2 h3 p1 unfolding ce by blast
  have s2: "detail_History ?T scenarioB_entries = HistoryItems (rev scenarioB_entries)"
    using big h1 h2 h3 p2 ne unfolding ce by blast
  have s3: "cardEntries (dashboardOfStore ?T [scenarioA_goal]
         [scenarioA_second, scenarioA_first]) scenarioA_goal
       = [scenarioA_first, scenarioA_second]
     \<and> sort_js (detail_compareEntries ?T) [scenarioA_first, scenarioA_second]
       = [scenarioA_second, scenarioA_first]"
    using small a by blast
  show ?thesis using h1 h2 ce chr s1 s2 s3 by blast
qed

end
